theory Spec2Isabelle
  imports Complex_Main "HOL-Library.Multiset"
begin

section \<open>String helpers of the host language\<close>

text \<open>
  Strings are character lists. \<open>startsWith\<close> and \<open>str_includes\<close> are
  \<^verbatim>\<open>String.prototype.startsWith\<close> and \<^verbatim>\<open>String.prototype.includes\<close>;
  \<open>trim\<close> strips the ASCII white space at both ends; \<open>split_on\<close> is
  \<^verbatim>\<open>split\<close> on a one-character separator (it never returns the empty array).
\<close>

definition startsWith :: "string \<Rightarrow> string \<Rightarrow> bool" where
  "startsWith s p = (take (length p) s = p)"

fun str_includes :: "string \<Rightarrow> string \<Rightarrow> bool" where
  "str_includes [] p = (p = [])"
| "str_includes (c # cs) p = (startsWith (c # cs) p \<or> str_includes cs p)"

definition isSpace :: "char \<Rightarrow> bool" where
  "isSpace c = (c \<in> set [CHR '' '', CHR 0x09, CHR 0x0A, CHR 0x0B, CHR 0x0C, CHR 0x0D])"

definition trim :: "string \<Rightarrow> string" where
  "trim s = rev (dropWhile isSpace (rev (dropWhile isSpace s)))"

fun split_on :: "char \<Rightarrow> string \<Rightarrow> string list" where
  "split_on d [] = [[]]"
| "split_on d (c # cs) =
     (if c = d then [] # split_on d cs
      else (case split_on d cs of [] \<Rightarrow> [[c]] | w # ws \<Rightarrow> (c # w) # ws))"

definition isDigit :: "char \<Rightarrow> bool" where
  "isDigit c = (c \<in> set ''0123456789'')"

definition digitVal :: "char \<Rightarrow> nat" where
  "digitVal c = of_char c - 48"

text \<open>
  The number a run of decimal digits denotes, and the double nearest to a natural number
  (ties to the even mantissa of 53 bits; \<open>2^1024\<close> stands for \<^verbatim>\<open>Infinity\<close>).
  \<^verbatim>\<open>parseInt\<close> on a non-empty run of digits is the double nearest to the number denoted;
  below \<open>2^53\<close> that is the number itself. (For more than 20 digits the language lets an
  implementation round the digits first; the correctly rounded value is taken here.)
\<close>

definition digitsValue :: "string \<Rightarrow> nat" where
  "digitsValue ds = foldl (\<lambda>a c. 10 * a + digitVal c) 0 ds"

fun bit_length :: "nat \<Rightarrow> nat" where
  "bit_length n = (if n = 0 then 0 else Suc (bit_length (n div 2)))"

declare bit_length.simps [simp del]

definition to_double :: "nat \<Rightarrow> nat" where
  "to_double n =
     (if n < 2 ^ 53 then n
      else
        (let e = bit_length n - 53; q = n div 2 ^ e; r = n mod 2 ^ e;
             m = (if 2 * r > 2 ^ e \<or> (2 * r = 2 ^ e \<and> odd q) then q + 1 else q) * 2 ^ e
         in if m \<ge> 2 ^ 1024 then 2 ^ 1024 else m))"

definition parseInt :: "string \<Rightarrow> nat" where
  "parseInt ds = to_double (digitsValue ds)"

definition digitChar :: "nat \<Rightarrow> char" where
  "digitChar d = char_of (48 + d)"

text \<open>The decimal text of a number inside a template string.\<close>

fun string_of_nat :: "nat \<Rightarrow> string" where
  "string_of_nat n =
     (if n < 10 then [digitChar n] else string_of_nat (n div 10) @ [digitChar (n mod 10)])"

declare string_of_nat.simps [simp del]

text \<open>
  \<^verbatim>\<open>path.join(dir, name)\<close>: the two parts with a separator. \<^verbatim>\<open>path.join\<close> also
  normalises the text (it drops \<^verbatim>\<open>./\<close>, collapses separators, resolves \<^verbatim>\<open>..\<close>); that
  step is not modelled, so a path here is the text before normalisation. It names the same
  file, and it is the same text for a directory that is already normal, such as
  \<^verbatim>\<open>/downloads\<close>.
\<close>

definition path_join :: "string \<Rightarrow> string \<Rightarrow> string" where
  "path_join dir name = dir @ ''/'' @ name"


section \<open>Playlist resolver: liveness flag of \<^verbatim>\<open>M3U8Parser.parsePlaylist\<close>\<close>

text \<open>
  \<^verbatim>\<open>content.split('\n').map(line => line.trim()).filter(line => line)\<close>
\<close>

definition playlist_lines :: "string \<Rightarrow> string list" where
  "playlist_lines content = filter (\<lambda>line. line \<noteq> []) (map trim (split_on (CHR 0x0A) content))"

text \<open>One iteration of the loop over the lines, for the variable \<^verbatim>\<open>isLive\<close>.\<close>

definition liveStep :: "bool \<Rightarrow> string \<Rightarrow> bool" where
  "liveStep isLive line =
     (if str_includes line ''#EXT-X-PLAYLIST-TYPE:VOD'' then False
      else if str_includes line ''#EXT-X-PLAYLIST-TYPE:LIVE''
              \<or> str_includes line ''#EXT-X-TARGETDURATION'' then True
      else isLive)"

definition parsePlaylist_isLive :: "string \<Rightarrow> bool" where
  "parsePlaylist_isLive content = foldl liveStep False (playlist_lines content)"

text \<open>
  The rule in the words of the specification: live when a LIVE line appears or a
  TARGETDURATION line appears without VOD; not live whenever a VOD line appears.
\<close>

definition isLive_spec :: "string list \<Rightarrow> bool" where
  "isLive_spec ls =
     ((\<not> list_ex (\<lambda>l. str_includes l ''#EXT-X-PLAYLIST-TYPE:VOD'') ls) \<and>
      (list_ex (\<lambda>l. str_includes l ''#EXT-X-PLAYLIST-TYPE:LIVE'') ls \<or>
       list_ex (\<lambda>l. str_includes l ''#EXT-X-TARGETDURATION'') ls))"

text \<open>A media playlist whose type line precedes its target duration line.\<close>

definition vod_first_playlist :: string where
  "vod_first_playlist =
     ''#EXTM3U'' @ [CHR 0x0A] @
     ''#EXT-X-PLAYLIST-TYPE:VOD'' @ [CHR 0x0A] @
     ''#EXT-X-TARGETDURATION:10'' @ [CHR 0x0A] @
     ''#EXTINF:10,'' @ [CHR 0x0A] @
     ''seg0.ts'' @ [CHR 0x0A] @
     ''#EXT-X-ENDLIST''"


section \<open>Muxer driver: ordering of the segment paths\<close>

text \<open>
  The regular expression \<^verbatim>\<open>/_segment_(\d+)\./\<close> tried at the head of a string: the
  literal, then the longest run of digits, then a dot. (A shorter run of digits is followed
  by a digit, never by the dot, so backtracking finds nothing more.)
\<close>

definition match_at :: "string \<Rightarrow> nat option" where
  "match_at s =
     (if startsWith s ''_segment_'' then
        (let rest = drop 9 s; ds = takeWhile isDigit rest; after = dropWhile isDigit rest
         in if ds \<noteq> [] \<and> startsWith after ''.'' then Some (parseInt ds) else None)
      else None)"

text \<open>\<^verbatim>\<open>a.match(...)\<close>: the leftmost position of the string where the expression matches.\<close>

fun regex_match :: "string \<Rightarrow> nat option" where
  "regex_match [] = None"
| "regex_match (c # cs) =
     (case match_at (c # cs) of Some n \<Rightarrow> Some n | None \<Rightarrow> regex_match cs)"

text \<open>\<^verbatim>\<open>aMatch ? parseInt(aMatch[1]) : 0\<close>\<close>

definition pathIndex :: "string \<Rightarrow> nat" where
  "pathIndex a = (case regex_match a of Some n \<Rightarrow> n | None \<Rightarrow> 0)"

text \<open>The comparator handed to \<^verbatim>\<open>sort\<close>: \<^verbatim>\<open>aIndex - bIndex\<close>.\<close>

definition compareSegments :: "string \<Rightarrow> string \<Rightarrow> int" where
  "compareSegments a b = int (pathIndex a) - int (pathIndex b)"

text \<open>
  \<^verbatim>\<open>Array.prototype.sort\<close> is a stable sort; with a consistent comparator its result
  does not depend on the algorithm. It is modelled by stable insertion: an element goes in
  front of the first element it does not exceed.
\<close>

fun insert_by :: "('a \<Rightarrow> 'a \<Rightarrow> int) \<Rightarrow> 'a \<Rightarrow> 'a list \<Rightarrow> 'a list" where
  "insert_by cmp x [] = [x]"
| "insert_by cmp x (y # ys) = (if cmp x y \<le> 0 then x # y # ys else y # insert_by cmp x ys)"

definition array_sort :: "('a \<Rightarrow> 'a \<Rightarrow> int) \<Rightarrow> 'a list \<Rightarrow> 'a list" where
  "array_sort cmp xs = foldr (insert_by cmp) xs []"

text \<open>
  \<^verbatim>\<open>sortedSegments\<close>, as computed in \<^verbatim>\<open>mergeSegmentsToMKV\<close> and, by the same
  expression, in \<^verbatim>\<open>mergeSegmentsBinary\<close>.
\<close>

definition sortedSegments :: "string list \<Rightarrow> string list" where
  "sortedSegments segmentPaths = array_sort compareSegments segmentPaths"


section \<open>Data model\<close>

text \<open>
  Numbers of the host language are double precision floats. Integer columns are modelled as
  \<open>int\<close> (nullable ones as \<open>int option\<close>), ratios and times as exact rationals. The
  comparisons of the completion check are made on integers of at most 32 bits and decide as
  the floats do. A product or quotient that the code rounds as a float can differ from the
  exact value in its last bit, so a value rounded from it (the stored progress, the estimate
  of the remaining time) can differ from the code's by one unit in the last place, as for 23
  of 160 segments; the values stated below are taken where the float is exact.
\<close>

datatype status = Queued | Downloading | Paused | Merging | Completed | Error | Cancelled

text \<open>A row of the table \<^verbatim>\<open>downloads\<close>; the store keeps it under its \<^verbatim>\<open>id\<close>.\<close>

record download =
  filename :: string
  status :: status
  progress :: rat
  totalSegments :: "int option"
  downloadedSegments :: "int option"
  fileSize :: "int option"
  downloadedBytes :: "int option"
  speed :: "rat option"
  eta :: "int option"
  threads :: "int option"
  outputPath :: string
  outputFile :: "string option"
  duration :: "rat option"
  errorMessage :: "string option"
  segments :: "string list option"

text \<open>\<^verbatim>\<open>x || d\<close> on a nullable number: \<open>d\<close> replaces null and zero.\<close>

definition or_else :: "int option \<Rightarrow> int \<Rightarrow> int" where
  "or_else x d = (case x of None \<Rightarrow> d | Some v \<Rightarrow> if v = 0 then d else v)"

text \<open>\<^verbatim>\<open>Math.round\<close>: the nearest integer, halves upwards, here of the exact value.\<close>

definition js_round :: "rat \<Rightarrow> int" where
  "js_round x = \<lfloor>x + 1 / 2\<rfloor>"

text \<open>
  Messages handed to the event sink: \<^verbatim>\<open>download_status\<close> (id, status, errorMessage,
  outputFile, message), \<^verbatim>\<open>download_progress\<close> (id, progress, downloadedSegments, speed,
  eta, downloadedBytes) and \<^verbatim>\<open>merge_progress\<close> (id, progress).
\<close>

datatype message =
    DownloadStatus string status "string option" "string option" "string option"
  | DownloadProgress string rat int rat int int
  | MergeProgress string int

record stats =
  startTime :: int
  stats_downloadedBytes :: int
  totalBytes :: int

text \<open>
  The engine with what it acts on: the metadata store, its four maps, the files on disk
  (path to size in bytes), the messages sent so far, and the batches of segment fetches it
  has launched without awaiting them (job id, the segments to fetch, the total).
\<close>

record engine =
  store :: "string \<rightharpoonup> download"
  activeDownloads :: "string \<rightharpoonup> bool"
  downloadStats :: "string \<rightharpoonup> stats"
  segmentFiles :: "string \<rightharpoonup> string list"
  failedSegments :: "string \<rightharpoonup> nat set"
  disk :: "string \<rightharpoonup> nat"
  events :: "message list"
  launched :: "(string \<times> (nat \<times> string) list \<times> nat) list"

text \<open>\<^verbatim>\<open>storage.updateDownload(id, partial)\<close>: nothing happens for an unknown id.\<close>

definition updateDownload :: "string \<Rightarrow> (download \<Rightarrow> download) \<Rightarrow> engine \<Rightarrow> engine" where
  "updateDownload downloadId upd s =
     (case store s downloadId of
        None \<Rightarrow> s
      | Some d \<Rightarrow> s\<lparr>store := (store s)(downloadId \<mapsto> upd d)\<rparr>)"

definition onProgress :: "message \<Rightarrow> engine \<Rightarrow> engine" where
  "onProgress m s = s\<lparr>events := events s @ [m]\<rparr>"

text \<open>The deterministic path of segment \<open>i\<close> of a job.\<close>

definition segmentPath :: "download \<Rightarrow> nat \<Rightarrow> string" where
  "segmentPath d i =
     path_join (outputPath d) (filename d @ ''_segment_'' @ string_of_nat i @ ''.ts'')"


section \<open>Muxer driver: \<^verbatim>\<open>VideoMerger\<close>\<close>

record MergeOptions =
  opt_outputPath :: string
  opt_filename :: string
  segmentPaths :: "string list"

record MergeResult =
  success :: bool
  result_outputFile :: "string option"
  error :: "string option"
  result_duration :: "rat option"

datatype muxer_run = RunEnd | RunError string

text \<open>
  What the surroundings do during one merge: whether \<^verbatim>\<open>initialize\<close> throws (only tried
  when no muxer path is known yet), the error of \<^verbatim>\<open>mkdir\<close>, of writing the manifest, of
  deleting it, the percentages the muxer reports, how its run ends and what it leaves at the
  output path, the probed duration, which segment files refuse deletion, which refuse
  reading, and an error of the output stream of the binary path that shows only when the
  stream is closed. An error is its message.
\<close>

record merge_env =
  initializeFails :: bool
  mkdirError :: "string option"
  writeManifestError :: "string option"
  muxerPercents :: "rat list"
  muxerRun :: muxer_run
  muxerOutput :: "nat option"
  unlinkManifestError :: "string option"
  probedDuration :: rat
  unlinkSegmentFails :: "string \<Rightarrow> bool"
  readFileError :: "string \<Rightarrow> string option"
  writeStreamError :: "string option"

text \<open>
  How the promise of a call ends: resolved with a result, rejected with an error, or never
  settled because an \<^verbatim>\<open>error\<close> event met no listener and went up as an uncaught
  exception.
\<close>

datatype settlement = Resolved MergeResult | Rejected string | Uncaught string

text \<open>
  What a call leaves: how it ended, the disk afterwards, the array \<^verbatim>\<open>segmentPaths\<close>
  afterwards (\<^verbatim>\<open>sort\<close> works in place on the caller's array), the calls of the progress
  callback, the text of the manifest the muxer was run on (if it was run), and the segment
  files whose bytes were handed to the output stream, in that order.
\<close>

record merge_outcome =
  settled :: settlement
  disk_after :: "string \<rightharpoonup> nat"
  paths_after :: "string list"
  progress_calls :: "int list"
  manifest :: "string option"
  appended :: "string list"

definition endsWith :: "string \<Rightarrow> string \<Rightarrow> bool" where
  "endsWith s p = (length p \<le> length s \<and> drop (length s - length p) s = p)"

definition cleanFilename :: "string \<Rightarrow> string" where
  "cleanFilename f = (if endsWith f ''.mkv'' then take (length f - 4) f else f)"

definition concatFilePath :: "MergeOptions \<Rightarrow> string" where
  "concatFilePath opts = path_join (opt_outputPath opts) (opt_filename opts @ ''_concat.txt'')"

definition outputFilePath :: "MergeOptions \<Rightarrow> string" where
  "outputFilePath opts = path_join (opt_outputPath opts) (cleanFilename (opt_filename opts) @ ''.mkv'')"

text \<open>The manifest: one line per segment (\<^verbatim>\<open>path.resolve\<close> leaves an absolute path as it is).\<close>

fun join_lines :: "string list \<Rightarrow> string" where
  "join_lines [] = []"
| "join_lines [l] = l"
| "join_lines (l # m # ls) = l @ [CHR 0x0A] @ join_lines (m # ls)"

definition concatContent :: "string list \<Rightarrow> string" where
  "concatContent ps = join_lines (map (\<lambda>p. ''file '' @ [CHR 0x27] @ p @ [CHR 0x27]) ps)"

text \<open>\<^verbatim>\<open>cleanupSegmentFiles\<close>: each file is unlinked; a failure is logged and ignored.\<close>

definition cleanupSegmentFiles ::
  "merge_env \<Rightarrow> string list \<Rightarrow> (string \<rightharpoonup> nat) \<Rightarrow> (string \<rightharpoonup> nat)" where
  "cleanupSegmentFiles env paths d =
     foldl (\<lambda>d p. if unlinkSegmentFails env p then d else d(p := None)) d paths"

definition failure :: "string \<Rightarrow> MergeResult" where
  "failure msg = \<lparr>success = False, result_outputFile = None, error = Some msg, result_duration = None\<rparr>"

definition put_output :: "merge_env \<Rightarrow> string \<Rightarrow> (string \<rightharpoonup> nat) \<Rightarrow> (string \<rightharpoonup> nat)" where
  "put_output env out d = (case muxerOutput env of None \<Rightarrow> d | Some n \<Rightarrow> d(out \<mapsto> n))"

definition mergeSegmentsToMKV ::
  "merge_env \<Rightarrow> MergeOptions \<Rightarrow> (string \<rightharpoonup> nat) \<Rightarrow> merge_outcome" where
  "mergeSegmentsToMKV env opts d =
     (if initializeFails env then
        \<lparr>settled = Rejected ''FFmpeg not found. Please install FFmpeg or add @ffmpeg-installer/ffmpeg.'',
         disk_after = d, paths_after = segmentPaths opts, progress_calls = [],
         manifest = None, appended = []\<rparr>
      else
        (case mkdirError env of
           Some e \<Rightarrow>
             \<lparr>settled = Resolved (failure (''Failed to merge segments: '' @ e)),
              disk_after = d, paths_after = segmentPaths opts, progress_calls = [],
              manifest = None, appended = []\<rparr>
         | None \<Rightarrow>
             (let ordered = sortedSegments (segmentPaths opts) in
              case writeManifestError env of
                Some e \<Rightarrow>
                  \<lparr>settled = Resolved (failure (''Failed to merge segments: '' @ e)),
                   disk_after = d, paths_after = ordered, progress_calls = [],
                   manifest = None, appended = []\<rparr>
              | None \<Rightarrow>
                  (let d1 = d(concatFilePath opts \<mapsto> length (concatContent ordered));
                       calls = map js_round (filter (\<lambda>p. p \<noteq> 0) (muxerPercents env));
                       d2 = put_output env (outputFilePath opts) d1
                   in case muxerRun env of
                        RunEnd \<Rightarrow>
                          (case unlinkManifestError env of
                             Some e \<Rightarrow>
                               \<lparr>settled = Resolved \<lparr>success = True,
                                    result_outputFile = Some (outputFilePath opts),
                                    error = Some (''Merge successful but cleanup failed: Error: '' @ e),
                                    result_duration = None\<rparr>,
                                disk_after = d2, paths_after = ordered, progress_calls = calls,
                                manifest = Some (concatContent ordered), appended = []\<rparr>
                           | None \<Rightarrow>
                               \<lparr>settled = Resolved \<lparr>success = True,
                                    result_outputFile = Some (outputFilePath opts),
                                    error = None,
                                    result_duration = Some (probedDuration env)\<rparr>,
                                disk_after =
                                  cleanupSegmentFiles env ordered (d2(concatFilePath opts := None)),
                                paths_after = ordered, progress_calls = calls,
                                manifest = Some (concatContent ordered), appended = []\<rparr>)
                      | RunError msg \<Rightarrow>
                          \<lparr>settled = Resolved \<lparr>success = False, result_outputFile = None,
                               error = Some msg, result_duration = None\<rparr>,
                           disk_after =
                             (if unlinkManifestError env = None
                              then d2(concatFilePath opts := None) else d2),
                           paths_after = ordered, progress_calls = calls,
                           manifest = Some (concatContent ordered), appended = []\<rparr>))))"

text \<open>\<^verbatim>\<open>fs.readFile\<close> of a segment.\<close>

definition readFile :: "merge_env \<Rightarrow> (string \<rightharpoonup> nat) \<Rightarrow> string \<Rightarrow> string + nat" where
  "readFile env d p =
     (case readFileError env p of
        Some e \<Rightarrow> Inl e
      | None \<Rightarrow> (case d p of
                  None \<Rightarrow> Inl (''ENOENT: no such file or directory, open '' @ p)
                | Some n \<Rightarrow> Inr n))"

text \<open>
  A fault of the output stream of the binary path: the file cannot be opened, or the write
  of the bytes of the segment at a position of the ordered list fails. The stream reports a
  fault by an \<^verbatim>\<open>error\<close> event on a later turn of the event loop. The listener for it is
  attached only after the loop over the segments, and the loop waits for the read of each
  segment: a failed open is reported while the first segment is being read, a failed write
  while the next segment is being read, and only the fault of the last write (or of the open
  when there is no segment) is reported when the listener is there.
\<close>

datatype stream_fault = OpenFails string | WriteFails nat string

text \<open>The fault reported while segment \<open>k\<close> is being read.\<close>

definition fault_at :: "stream_fault option \<Rightarrow> nat \<Rightarrow> string option" where
  "fault_at fault k =
     (case fault of
        None \<Rightarrow> None
      | Some (OpenFails e) \<Rightarrow> if k = 0 then Some e else None
      | Some (WriteFails j e) \<Rightarrow> if Suc j = k then Some e else None)"

text \<open>The fault reported after a loop over \<open>n\<close> segments.\<close>

definition fault_after :: "stream_fault option \<Rightarrow> nat \<Rightarrow> string option" where
  "fault_after fault n =
     (case fault of
        None \<Rightarrow> None
      | Some (OpenFails e) \<Rightarrow> if n = 0 then Some e else None
      | Some (WriteFails j e) \<Rightarrow> if Suc j = n then Some e else None)"

datatype loop_end = LoopDone | ReadFailed string | StreamFailed string

text \<open>
  The loop that appends the segments, from position \<open>k\<close> on: how it ends, the files handed
  to the stream so far, and their bytes.
\<close>

fun appendSegments ::
  "merge_env \<Rightarrow> stream_fault option \<Rightarrow> (string \<rightharpoonup> nat) \<Rightarrow> string list \<Rightarrow> nat \<Rightarrow>
   string list \<Rightarrow> nat \<Rightarrow> loop_end \<times> string list \<times> nat" where
  "appendSegments env fault d [] k handed written = (LoopDone, handed, written)"
| "appendSegments env fault d (p # ps) k handed written =
     (case fault_at fault k of
        Some e \<Rightarrow> (StreamFailed e, handed, written)
      | None \<Rightarrow>
          (case readFile env d p of
             Inl e \<Rightarrow> (ReadFailed e, handed, written)
           | Inr n \<Rightarrow> appendSegments env fault d ps (Suc k) (handed @ [p]) (written + n)))"

text \<open>The output file after the stream was created: none when the open fails.\<close>

definition stream_file ::
  "stream_fault option \<Rightarrow> string \<Rightarrow> nat \<Rightarrow> (string \<rightharpoonup> nat) \<Rightarrow> (string \<rightharpoonup> nat)" where
  "stream_file fault out n d =
     (case fault of Some (OpenFails e) \<Rightarrow> d | _ \<Rightarrow> d(out \<mapsto> n))"

definition mergeSegmentsBinary ::
  "merge_env \<Rightarrow> stream_fault option \<Rightarrow> MergeOptions \<Rightarrow> (string \<rightharpoonup> nat) \<Rightarrow> merge_outcome" where
  "mergeSegmentsBinary env fault opts d =
     (case mkdirError env of
        Some e \<Rightarrow>
          \<lparr>settled = Resolved (failure (''Binary merge failed: '' @ e)),
           disk_after = d, paths_after = segmentPaths opts, progress_calls = [],
           manifest = None, appended = []\<rparr>
      | None \<Rightarrow>
          (let ordered = sortedSegments (segmentPaths opts);
               d1 = stream_file fault (outputFilePath opts) 0 d;
               (ending, handed, written) = appendSegments env fault d1 ordered 0 [] 0;
               d2 = stream_file fault (outputFilePath opts) written d
           in case ending of
                StreamFailed e \<Rightarrow>
                  \<lparr>settled = Uncaught e,
                   disk_after = d2, paths_after = ordered, progress_calls = [],
                   manifest = None, appended = handed\<rparr>
              | ReadFailed e \<Rightarrow>
                  \<lparr>settled = Resolved (failure (''Binary merge failed: '' @ e)),
                   disk_after = d2, paths_after = ordered, progress_calls = [],
                   manifest = None, appended = handed\<rparr>
              | LoopDone \<Rightarrow>
                  (case fault_after fault (length ordered) of
                     Some e \<Rightarrow>
                       \<lparr>settled = Resolved (failure (''Binary merge failed: '' @ e)),
                        disk_after = d2, paths_after = ordered, progress_calls = [],
                        manifest = None, appended = handed\<rparr>
                   | None \<Rightarrow>
                       (case writeStreamError env of
                          Some e \<Rightarrow>
                            \<lparr>settled = Resolved (failure (''Binary merge failed: '' @ e)),
                             disk_after = d2, paths_after = ordered, progress_calls = [],
                             manifest = None, appended = handed\<rparr>
                        | None \<Rightarrow>
                            \<lparr>settled = Resolved \<lparr>success = True,
                                 result_outputFile = Some (outputFilePath opts),
                                 error = None, result_duration = None\<rparr>,
                             disk_after = cleanupSegmentFiles env ordered d2,
                             paths_after = ordered, progress_calls = [],
                             manifest = None, appended = handed\<rparr>))))"


section \<open>Download engine\<close>

subsection \<open>\<^verbatim>\<open>mergeSegments\<close>\<close>

text \<open>
  What a call of the muxer driver leaves in the engine: the disk, the job's array of segment
  paths (the driver sorted the very array the engine holds), and one
  \<^verbatim>\<open>merge_progress\<close> message for each call of the callback.
\<close>

definition after_merge :: "string \<Rightarrow> merge_outcome \<Rightarrow> engine \<Rightarrow> engine" where
  "after_merge downloadId out s =
     s\<lparr>disk := disk_after out,
       segmentFiles := (segmentFiles s)(downloadId \<mapsto> paths_after out),
       events := events s @ map (MergeProgress downloadId) (progress_calls out)\<rparr>"

text \<open>The outer \<^verbatim>\<open>catch\<close> of \<^verbatim>\<open>mergeSegments\<close>, with the message of the error caught.\<close>

definition merge_catch :: "string \<Rightarrow> string \<Rightarrow> engine \<Rightarrow> engine" where
  "merge_catch downloadId msg s =
     onProgress
       (DownloadStatus downloadId Completed
          (Some (''Merge failed but segments downloaded: '' @ msg)) None None)
       (updateDownload downloadId
          (\<lambda>d. d\<lparr>status := Completed,
                 errorMessage := Some (''Merge failed but segments available: '' @ msg),
                 progress := 100\<rparr>) s)"

text \<open>
  The branch on \<^verbatim>\<open>result.success\<close>; the other branch throws
  \<^verbatim>\<open>result.error || 'Unknown merge error'\<close> into the outer \<^verbatim>\<open>catch\<close>.
\<close>

definition merge_result :: "string \<Rightarrow> MergeResult \<Rightarrow> engine \<Rightarrow> engine" where
  "merge_result downloadId result s =
     (if success result then
        (let s1 = updateDownload downloadId
                    (\<lambda>d. d\<lparr>status := Completed,
                           outputFile := result_outputFile result,
                           duration := result_duration result\<rparr>) s;
             s2 = s1\<lparr>segmentFiles := (segmentFiles s1)(downloadId := None)\<rparr>
         in onProgress (DownloadStatus downloadId Completed None (result_outputFile result) None) s2)
      else
        merge_catch downloadId
          (case error result of
             None \<Rightarrow> ''Unknown merge error''
           | Some e \<Rightarrow> if e = [] then ''Unknown merge error'' else e) s)"

definition fallback_message :: "string \<Rightarrow> message" where
  "fallback_message downloadId =
     DownloadStatus downloadId Merging None None
       (Some ''FFmpeg not available, using binary merge...'')"

text \<open>The start of the merge: the status message and the status \<^verbatim>\<open>merging\<close>.\<close>

definition merge_begin :: "string \<Rightarrow> engine \<Rightarrow> engine" where
  "merge_begin downloadId s =
     updateDownload downloadId (\<lambda>d. d\<lparr>status := Merging\<rparr>)
       (onProgress (DownloadStatus downloadId Merging None None None) s)"

definition mergeOptions_of :: "download \<Rightarrow> string list \<Rightarrow> MergeOptions" where
  "mergeOptions_of download files =
     \<lparr>opt_outputPath = outputPath download, opt_filename = filename download,
      segmentPaths = files\<rparr>"

text \<open>
  The \<^verbatim>\<open>catch (ffmpegError)\<close> branch: the message about the fallback, then the binary
  concatenation on the same options. The engine is followed as long as its process lives; an
  uncaught exception ends the process, so the binary concatenation is taken here with an
  output stream that reports no fault during the loop (the other case is a matter of
  \<open>mergeSegmentsBinary\<close> alone).
\<close>

definition merge_fallback :: "merge_env \<Rightarrow> string \<Rightarrow> MergeOptions \<Rightarrow> engine \<Rightarrow> engine" where
  "merge_fallback env downloadId mergeOptions s3 =
     (let s4 = onProgress (fallback_message downloadId) s3;
          bin = mergeSegmentsBinary env None mergeOptions (disk s4);
          s5 = after_merge downloadId bin s4
      in case settled bin of
           Resolved result \<Rightarrow> merge_result downloadId result s5
         | Rejected e \<Rightarrow> merge_catch downloadId e s5
         | Uncaught e \<Rightarrow> s5)"

text \<open>
  The inner \<^verbatim>\<open>try\<close> with what follows it: the external muxer first, the fallback when its
  promise is rejected, then the branch on the result.
\<close>

definition merge_try :: "merge_env \<Rightarrow> string \<Rightarrow> MergeOptions \<Rightarrow> engine \<Rightarrow> engine" where
  "merge_try env downloadId mergeOptions s2 =
     (let mkv = mergeSegmentsToMKV env mergeOptions (disk s2);
          s3 = after_merge downloadId mkv s2
      in case settled mkv of
           Resolved result \<Rightarrow> merge_result downloadId result s3
         | Rejected ffmpegError \<Rightarrow>
             merge_fallback env downloadId (mergeOptions\<lparr>segmentPaths := paths_after mkv\<rparr>) s3
         | Uncaught e \<Rightarrow> s3)"

definition mergeSegments :: "merge_env \<Rightarrow> string \<Rightarrow> engine \<Rightarrow> engine" where
  "mergeSegments env downloadId s =
     (case store s downloadId of
        None \<Rightarrow> s
      | Some download \<Rightarrow>
          (let files = (case segmentFiles s downloadId of None \<Rightarrow> [] | Some fs \<Rightarrow> fs) in
           if files = [] then s
           else merge_try env downloadId (mergeOptions_of download files)
                  (merge_begin downloadId s)))"


subsection \<open>\<^verbatim>\<open>checkDownloadCompletion\<close>\<close>

definition completionThreshold :: rat where
  "completionThreshold = 98 / 100"

text \<open>The expression \<^verbatim>\<open>shouldComplete\<close>, on the three numbers it reads.\<close>

definition shouldComplete :: "int \<Rightarrow> int \<Rightarrow> int \<Rightarrow> bool" where
  "shouldComplete downloadedSegs totalSegs failedSegs =
     (let progress = (of_int downloadedSegs :: rat) / of_int totalSegs in
      downloadedSegs \<ge> totalSegs \<or>
      (progress \<ge> completionThreshold \<and> downloadedSegs > 0) \<or>
      (downloadedSegs + failedSegs \<ge> totalSegs \<and>
       (of_int failedSegs :: rat) \<le> max 2 (of_int totalSegs * (2 / 100))))"

text \<open>\<^verbatim>\<open>this.failedSegments.get(downloadId)?.size || 0\<close>\<close>

definition failedCount :: "engine \<Rightarrow> string \<Rightarrow> int" where
  "failedCount s downloadId =
     (case failedSegments s downloadId of None \<Rightarrow> 0 | Some F \<Rightarrow> int (card F))"

definition checkDownloadCompletion :: "merge_env \<Rightarrow> string \<Rightarrow> engine \<Rightarrow> engine" where
  "checkDownloadCompletion env downloadId s =
     (case store s downloadId of
        None \<Rightarrow> s
      | Some download \<Rightarrow>
          (let downloadedSegs = or_else (downloadedSegments download) 0;
               totalSegs = or_else (totalSegments download) 1;
               failedSegs = failedCount s downloadId;
               progress = (of_int downloadedSegs :: rat) / of_int totalSegs
           in if shouldComplete downloadedSegs totalSegs failedSegs then
                (let finalProgress = min 100 (js_round (progress * 100));
                     s1 = updateDownload downloadId
                            (\<lambda>d. d\<lparr>status := Completed, progress := of_int finalProgress\<rparr>) s;
                     s2 = mergeSegments env downloadId s1;
                     s3 = s2\<lparr>activeDownloads := (activeDownloads s2)(downloadId := None),
                             downloadStats := (downloadStats s2)(downloadId := None),
                             failedSegments := (failedSegments s2)(downloadId := None)\<rparr>
                 in onProgress (DownloadStatus downloadId Completed None None None) s3)
              else s))"

text \<open>
  The three rules in the words of the specification, with the ceiling in the third.
\<close>

definition completion_rule_spec :: "int \<Rightarrow> int \<Rightarrow> int \<Rightarrow> bool" where
  "completion_rule_spec downloadedSegs totalSegs failedSegs =
     (downloadedSegs \<ge> totalSegs \<or>
      ((of_int downloadedSegs :: rat) / of_int totalSegs \<ge> 98 / 100 \<and> downloadedSegs > 0) \<or>
      (downloadedSegs + failedSegs \<ge> totalSegs \<and>
       failedSegs \<le> max 2 \<lceil>(of_int totalSegs :: rat) * (2 / 100)\<rceil>))"


subsection \<open>\<^verbatim>\<open>updateDownloadProgress\<close>\<close>

text \<open>
  The local values of the function, from the stored number of downloaded segments, the total,
  the bytes so far, the elapsed milliseconds and the number of failed segments.
\<close>

definition elapsedSeconds :: "int \<Rightarrow> stats \<Rightarrow> rat" where
  "elapsedSeconds now st = of_int (now - startTime st) / 1000"

definition avgSegmentTime :: "rat \<Rightarrow> int \<Rightarrow> int option \<Rightarrow> rat" where
  "avgSegmentTime elapsed newDownloadedSegments stored =
     elapsed / of_int (newDownloadedSegments - or_else stored 0 + 1)"

definition updateDownloadProgress ::
  "int \<Rightarrow> string \<Rightarrow> nat \<Rightarrow> int \<Rightarrow> int option \<Rightarrow> engine \<Rightarrow> engine" where
  "updateDownloadProgress now downloadId segmentIndex segmentSize totalArg s =
     (case store s downloadId of
        None \<Rightarrow> s
      | Some download \<Rightarrow>
          (case downloadStats s downloadId of
             None \<Rightarrow> s
           | Some st \<Rightarrow>
               (let bytes = stats_downloadedBytes st + segmentSize;
                    s0 = s\<lparr>downloadStats :=
                             (downloadStats s)(downloadId \<mapsto> st\<lparr>stats_downloadedBytes := bytes\<rparr>)\<rparr>;
                    newDownloadedSegments = or_else (downloadedSegments download) 0 + 1;
                    totalSegs = or_else totalArg (or_else (totalSegments download) 1);
                    progressNow = (of_int newDownloadedSegments :: rat) / of_int totalSegs * 100;
                    elapsed = elapsedSeconds now st;
                    speedNow = (if elapsed > 0 then of_int bytes / elapsed else 0);
                    failedSegs = failedCount s downloadId;
                    remainingSegments = totalSegs - newDownloadedSegments - failedSegs;
                    avg = avgSegmentTime elapsed newDownloadedSegments (downloadedSegments download);
                    etaNow = (if remainingSegments > 0 \<and> avg > 0
                              then js_round (of_int remainingSegments * avg) else 0);
                    s1 = updateDownload downloadId
                           (\<lambda>d. d\<lparr>downloadedSegments := Some newDownloadedSegments,
                                  progress := of_int (js_round (progressNow * 100)) / 100,
                                  downloadedBytes := Some bytes,
                                  speed := Some speedNow,
                                  eta := Some etaNow\<rparr>) s0
                in onProgress
                     (DownloadProgress downloadId progressNow newDownloadedSegments speedNow
                        etaNow bytes) s1)))"

text \<open>
  The estimate in the words of the specification: the remaining segments times the elapsed
  seconds per segment downloaded in this run, rounded; 0 when nothing remains.
\<close>

definition eta_spec :: "int \<Rightarrow> int \<Rightarrow> int \<Rightarrow> rat \<Rightarrow> int \<Rightarrow> int" where
  "eta_spec totalSegs downloadedSegs failedSegs elapsed downloadedThisRun =
     (if totalSegs - downloadedSegs - failedSegs \<le> 0 then 0
      else js_round (of_int (totalSegs - downloadedSegs - failedSegs)
                     * (elapsed / of_int downloadedThisRun)))"


subsection \<open>\<^verbatim>\<open>downloadSegment\<close>\<close>

text \<open>
  An error object: its name and its message. Inside a template string it shows as
  \<^verbatim>\<open>Error.prototype.toString\<close> gives it.
\<close>

datatype js_error = JsError string string

fun error_text :: "js_error \<Rightarrow> string" where
  "error_text (JsError name msg) =
     (if name = [] then msg else if msg = [] then name else name @ '': '' @ msg)"

text \<open>
  What one attempt meets: the answer to the HTTP GET (a transport failure with the error the
  client throws for it, or a status and the length of the body in bytes) and the message of
  the error of writing the segment file, if any. \<open>Get k\<close> and \<open>Sleep ms\<close> record the
  requests made and the pauses taken.
\<close>

datatype http_reply = TransportFailure js_error | Reply nat nat

record attempt_io =
  reply :: http_reply
  writeFileError :: "string option"

datatype io_event = Get nat | Sleep nat

fun isGet :: "io_event \<Rightarrow> bool" where
  "isGet (Get k) = True"
| "isGet (Sleep ms) = False"

definition maxRetries :: nat where
  "maxRetries = 3"

text \<open>
  \<^verbatim>\<open>axios.get\<close> rejects on a transport failure and, by its default
  \<^verbatim>\<open>validateStatus\<close>, on every status outside 200..299, then with an error named
  \<^verbatim>\<open>AxiosError\<close>.
\<close>

definition axios_get :: "http_reply \<Rightarrow> js_error + nat" where
  "axios_get r =
     (case r of
        TransportFailure e \<Rightarrow> Inl e
      | Reply st n \<Rightarrow>
          if 200 \<le> st \<and> st < 300 then Inr n
          else Inl (JsError ''AxiosError''
                      (''Request failed with status code '' @ string_of_nat st)))"

text \<open>
  The body of the \<^verbatim>\<open>try\<close> block: the error thrown, or the length of the body. The error
  for an empty body is made by \<^verbatim>\<open>new Error\<close>; an error of the file system is named
  \<^verbatim>\<open>Error\<close> too.
\<close>

definition tryAttempt :: "attempt_io \<Rightarrow> nat \<Rightarrow> js_error + nat" where
  "tryAttempt a segmentIndex =
     (case axios_get (reply a) of
        Inl e \<Rightarrow> Inl e
      | Inr n \<Rightarrow>
          if n = 0 then
            Inl (JsError ''Error'' (''Empty response for segment '' @ string_of_nat segmentIndex))
          else (case writeFileError a of Some e \<Rightarrow> Inl (JsError ''Error'' e) | None \<Rightarrow> Inr n))"

text \<open>The file is written and its path appended to the job's list.\<close>

definition writeSegment :: "download \<Rightarrow> string \<Rightarrow> nat \<Rightarrow> nat \<Rightarrow> engine \<Rightarrow> engine" where
  "writeSegment download downloadId segmentIndex n s =
     s\<lparr>disk := (disk s)(segmentPath download segmentIndex \<mapsto> n),
       segmentFiles := (segmentFiles s)(downloadId \<mapsto>
          (case segmentFiles s downloadId of None \<Rightarrow> [] | Some fs \<Rightarrow> fs)
          @ [segmentPath download segmentIndex])\<rparr>"

record fetch_outcome =
  fetched :: "string + nat"
  io_trace :: "io_event list"
  engine_after :: engine

text \<open>
  The \<^verbatim>\<open>for\<close> loop from attempt number \<open>attempt\<close> on, with \<^verbatim>\<open>lastError\<close> and the
  requests and pauses so far. The result is the byte count, or the message of the error
  thrown after the loop.
\<close>

function downloadSegment_from ::
  "(string \<Rightarrow> nat \<Rightarrow> attempt_io) \<Rightarrow> string \<Rightarrow> nat \<Rightarrow> download \<Rightarrow> string \<Rightarrow> nat \<Rightarrow>
   js_error option \<Rightarrow> io_event list \<Rightarrow> engine \<Rightarrow> fetch_outcome" where
  "downloadSegment_from io segmentUrl segmentIndex download downloadId attempt lastError tr s =
     (if attempt \<le> maxRetries then
        (case tryAttempt (io segmentUrl attempt) segmentIndex of
           Inr n \<Rightarrow>
             \<lparr>fetched = Inr n, io_trace = tr @ [Get attempt],
              engine_after = writeSegment download downloadId segmentIndex n s\<rparr>
         | Inl e \<Rightarrow>
             downloadSegment_from io segmentUrl segmentIndex download downloadId (attempt + 1)
               (Some e)
               (tr @ Get attempt #
                  (if attempt < maxRetries then [Sleep (min (1000 * attempt) 5000)] else []))
               s)
      else
        \<lparr>fetched = Inl (''Failed to download segment '' @ string_of_nat segmentIndex
                         @ '' after '' @ string_of_nat maxRetries @ '' attempts: ''
                         @ (case lastError of None \<Rightarrow> ''undefined'' | Some e \<Rightarrow> error_text e)),
         io_trace = tr, engine_after = s\<rparr>)"
  by pat_completeness auto
termination
  by (relation "measure (\<lambda>(io, u, i, d, k, attempt, e, tr, s). maxRetries + 1 - attempt)") auto

declare downloadSegment_from.simps [simp del]

definition downloadSegment ::
  "(string \<Rightarrow> nat \<Rightarrow> attempt_io) \<Rightarrow> string \<Rightarrow> nat \<Rightarrow> download \<Rightarrow> string \<Rightarrow> engine \<Rightarrow>
   fetch_outcome" where
  "downloadSegment io segmentUrl segmentIndex download downloadId s =
     downloadSegment_from io segmentUrl segmentIndex download downloadId 1 None [] s"

text \<open>
  The task that \<^verbatim>\<open>processDownload\<close> queues for one missing segment: the liveness check,
  the fetch, then the progress update or the entry in the failed set.
\<close>

definition segmentTask ::
  "(string \<Rightarrow> nat \<Rightarrow> attempt_io) \<Rightarrow> int \<Rightarrow> string \<Rightarrow> download \<Rightarrow> nat \<times> string \<Rightarrow> nat \<Rightarrow>
   engine \<Rightarrow> (string + nat) \<times> engine" where
  "segmentTask io now downloadId download segmentInfo totalSegs s =
     (if activeDownloads s downloadId \<noteq> Some True then
        (Inl ''Download paused or cancelled'', s)
      else
        (let out = downloadSegment io (snd segmentInfo) (fst segmentInfo) download downloadId s;
             s1 = engine_after out
         in case fetched out of
              Inr segmentSize \<Rightarrow>
                (Inr segmentSize,
                 updateDownloadProgress now downloadId (fst segmentInfo) (int segmentSize)
                   (Some (int totalSegs)) s1)
            | Inl e \<Rightarrow>
                (Inl e,
                 s1\<lparr>failedSegments := (failedSegments s1)(downloadId \<mapsto>
                      insert (fst segmentInfo)
                        (case failedSegments s1 downloadId of None \<Rightarrow> {} | Some F \<Rightarrow> F))\<rparr>)))"


subsection \<open>\<^verbatim>\<open>checkExistingSegments\<close> and \<^verbatim>\<open>startDownload\<close>\<close>

record segment_check =
  existingSegments :: "(nat \<times> string) list"
  missingSegments :: "(nat \<times> string) list"
  existingSegmentPaths :: "string list"

text \<open>\<^verbatim>\<open>fs.stat\<close> succeeds and reports a size above zero.\<close>

definition hasContent :: "(string \<rightharpoonup> nat) \<Rightarrow> string \<Rightarrow> bool" where
  "hasContent d p = (case d p of None \<Rightarrow> False | Some sz \<Rightarrow> sz > 0)"

fun checkExisting_loop ::
  "(string \<rightharpoonup> nat) \<Rightarrow> download \<Rightarrow> (nat \<times> string) list \<Rightarrow> segment_check \<Rightarrow> segment_check" where
  "checkExisting_loop d download [] acc = acc"
| "checkExisting_loop d download ((i, segmentUrl) # rest) acc =
     checkExisting_loop d download rest
       (if hasContent d (segmentPath download i)
        then acc\<lparr>existingSegments := existingSegments acc @ [(i, segmentUrl)],
                 existingSegmentPaths := existingSegmentPaths acc @ [segmentPath download i]\<rparr>
        else acc\<lparr>missingSegments := missingSegments acc @ [(i, segmentUrl)]\<rparr>)"

definition checkExistingSegments ::
  "(string \<rightharpoonup> nat) \<Rightarrow> download \<Rightarrow> string list \<Rightarrow> segment_check" where
  "checkExistingSegments d download allSegments =
     checkExisting_loop d download (enumerate 0 allSegments)
       \<lparr>existingSegments = [], missingSegments = [], existingSegmentPaths = []\<rparr>"

text \<open>
  \<^verbatim>\<open>startDownload\<close>: the error thrown, if any, and the engine afterwards. The guard
  \<^verbatim>\<open>!download || !download.segments\<close> holds for a missing record and for a record
  without a segment array; an array, also the empty one, passes it. \<^verbatim>\<open>mkdirErr\<close> is the
  error of creating the output directory, \<open>now\<close> the clock.
\<close>

definition startDownload ::
  "merge_env \<Rightarrow> int \<Rightarrow> string option \<Rightarrow> string \<Rightarrow> engine \<Rightarrow> string option \<times> engine" where
  "startDownload env now mkdirErr downloadId s =
     (case store s downloadId of
        None \<Rightarrow> (Some ''Download not found or no segments available'', s)
      | Some download \<Rightarrow>
          (case segments download of
             None \<Rightarrow> (Some ''Download not found or no segments available'', s)
           | Some segs \<Rightarrow>
               (let s1 = updateDownload downloadId (\<lambda>d. d\<lparr>status := Downloading\<rparr>) s;
                    chk = checkExistingSegments (disk s1) download segs;
                    found = length (existingSegments chk);
                    s2 = (if found > 0 then
                            updateDownload downloadId
                              (\<lambda>d. d\<lparr>downloadedSegments := Some (int found),
                                     progress :=
                                       of_int (js_round
                                         ((of_nat found / of_nat (length segs)) * 100 * 100)) / 100\<rparr>)
                              s1
                          else s1);
                    s3 = s2\<lparr>downloadStats := (downloadStats s2)(downloadId \<mapsto>
                               \<lparr>startTime = now,
                                stats_downloadedBytes = or_else (downloadedBytes download) 0,
                                totalBytes = or_else (fileSize download) 0\<rparr>),
                            segmentFiles := (segmentFiles s2)(downloadId \<mapsto> existingSegmentPaths chk),
                            failedSegments := (failedSegments s2)(downloadId \<mapsto> {})\<rparr>
                in case mkdirErr of
                     Some e \<Rightarrow> (Some e, s3)
                   | None \<Rightarrow>
                       (let s4 = s3\<lparr>activeDownloads := (activeDownloads s3)(downloadId \<mapsto> True)\<rparr>;
                            s5 = onProgress (DownloadStatus downloadId Downloading None None None) s4
                        in if missingSegments chk = [] then
                             (None, checkDownloadCompletion env downloadId s5)
                           else
                             (None,
                              s5\<lparr>launched := launched s5 @
                                   [(downloadId, missingSegments chk, length segs)]\<rparr>)))))"


text \<open>
  The engine inside \<^verbatim>\<open>startDownload\<close> once the output directory is there and the first
  status message is sent, before the completion check or the launch of the fetches.
\<close>

definition start_ready :: "int \<Rightarrow> string \<Rightarrow> download \<Rightarrow> string list \<Rightarrow> engine \<Rightarrow> engine" where
  "start_ready now i d segs s =
     (let s1 = updateDownload i (\<lambda>d. d\<lparr>status := Downloading\<rparr>) s;
          chk = checkExistingSegments (disk s1) d segs;
          found = length (existingSegments chk);
          s2 = (if found > 0 then
                  updateDownload i
                    (\<lambda>d. d\<lparr>downloadedSegments := Some (int found),
                           progress :=
                             of_int (js_round
                               ((of_nat found / of_nat (length segs)) * 100 * 100)) / 100\<rparr>)
                    s1
                else s1);
          s3 = s2\<lparr>downloadStats := (downloadStats s2)(i \<mapsto>
                     \<lparr>startTime = now,
                      stats_downloadedBytes = or_else (downloadedBytes d) 0,
                      totalBytes = or_else (fileSize d) 0\<rparr>),
                  segmentFiles := (segmentFiles s2)(i \<mapsto> existingSegmentPaths chk),
                  failedSegments := (failedSegments s2)(i \<mapsto> {})\<rparr>;
          s4 = s3\<lparr>activeDownloads := (activeDownloads s3)(i \<mapsto> True)\<rparr>
      in onProgress (DownloadStatus i Downloading None None None) s4)"


text \<open>A call of the driver ended with \<^verbatim>\<open>success: true\<close>.\<close>

definition succeeded :: "merge_outcome \<Rightarrow> bool" where
  "succeeded out = (case settled out of Resolved r \<Rightarrow> success r | _ \<Rightarrow> False)"

text \<open>The last message sent reports a completed job without an error message.\<close>

definition reported_merged :: "string \<Rightarrow> engine \<Rightarrow> bool" where
  "reported_merged downloadId s =
     (case events s of
        [] \<Rightarrow> False
      | _ \<Rightarrow> (case last (events s) of
                DownloadStatus i st err out m \<Rightarrow> i = downloadId \<and> st = Completed \<and> err = None \<and> m = None
              | _ \<Rightarrow> False))"


text \<open>
  After a merge: the job is stored as completed, and either the merge was reported as done, or
  the job carries the message of the failed merge and no file but the manifest and the output
  file differs from before.
\<close>

definition merge_post :: "string \<Rightarrow> MergeOptions \<Rightarrow> engine \<Rightarrow> engine \<Rightarrow> bool" where
  "merge_post i opts s s' =
     (\<exists>d'. store s' i = Some d' \<and> status d' = Completed \<and>
        (reported_merged i s' \<or>
         ((\<exists>m. errorMessage d' = Some (''Merge failed but segments available: '' @ m)) \<and>
          (\<forall>p. p \<noteq> concatFilePath opts \<longrightarrow> p \<noteq> outputFilePath opts \<longrightarrow> disk s' p = disk s p))))"


section \<open>Example jobs\<close>

text \<open>
  A job of three segments of which two are on disk and the third has failed, and
  surroundings in which every step of a merge goes well, or the run of the muxer fails.
\<close>

definition job3 :: download where
  "job3 =
     \<lparr>filename = ''video'', status = Downloading, progress = 0,
      totalSegments = Some 3, downloadedSegments = Some 2,
      fileSize = Some 3145728, downloadedBytes = Some 0, speed = Some 0, eta = Some 0,
      threads = Some 4, outputPath = ''/downloads'', outputFile = None, duration = None,
      errorMessage = None,
      segments = Some [''http://host/s0.ts'', ''http://host/s1.ts'', ''http://host/s2.ts'']\<rparr>"

definition engine3 :: engine where
  "engine3 =
     \<lparr>store = [''job'' \<mapsto> job3],
      activeDownloads = [''job'' \<mapsto> True],
      downloadStats = [''job'' \<mapsto> \<lparr>startTime = 0, stats_downloadedBytes = 0, totalBytes = 3145728\<rparr>],
      segmentFiles = [''job'' \<mapsto> [segmentPath job3 1, segmentPath job3 0]],
      failedSegments = [''job'' \<mapsto> {2}],
      disk = [segmentPath job3 0 \<mapsto> 1024, segmentPath job3 1 \<mapsto> 1024],
      events = [],
      launched = []\<rparr>"

definition env_ok :: merge_env where
  "env_ok =
     \<lparr>initializeFails = False, mkdirError = None, writeManifestError = None,
      muxerPercents = [50, 100], muxerRun = RunEnd, muxerOutput = Some 2048,
      unlinkManifestError = None, probedDuration = 20,
      unlinkSegmentFails = (\<lambda>p. False), readFileError = (\<lambda>p. None),
      writeStreamError = None\<rparr>"

definition env_run_error :: merge_env where
  "env_run_error = env_ok\<lparr>muxerRun := RunError ''ffmpeg exited with code 1'', muxerOutput := None\<rparr>"


text \<open>
  A job whose file name stem holds the text \<^verbatim>\<open>_segment_7.\<close> (as a name taken from the
  title of an episode can), with the files of its first two segments on disk.
\<close>

definition job_stem :: download where
  "job_stem = job3\<lparr>filename := ''show_segment_7.final''\<rparr>"

definition disk_stem :: "string \<rightharpoonup> nat" where
  "disk_stem = [segmentPath job_stem 0 \<mapsto> 1024, segmentPath job_stem 1 \<mapsto> 1024]"



text \<open>
  The same job after its segment files were removed from the disk: the record still counts
  two downloaded segments.
\<close>

definition engine_lost :: engine where
  "engine_lost =
     \<lparr>store = [''job'' \<mapsto> job3],
      activeDownloads = Map.empty, downloadStats = Map.empty, segmentFiles = Map.empty,
      failedSegments = Map.empty, disk = Map.empty, events = [], launched = []\<rparr>"

text \<open>A job created from a playlist without segment lines: its segment array is empty.\<close>

definition job_empty :: download where
  "job_empty =
     \<lparr>filename = ''video'', status = Queued, progress = 0,
      totalSegments = Some 0, downloadedSegments = Some 0,
      fileSize = Some 0, downloadedBytes = Some 0, speed = Some 0, eta = Some 0,
      threads = Some 4, outputPath = ''/downloads'', outputFile = None, duration = None,
      errorMessage = None, segments = Some []\<rparr>"

definition engine_empty :: engine where
  "engine_empty =
     \<lparr>store = [''job'' \<mapsto> job_empty],
      activeDownloads = Map.empty, downloadStats = Map.empty, segmentFiles = Map.empty,
      failedSegments = Map.empty, disk = Map.empty, events = [], launched = []\<rparr>"

text \<open>
  A job of ten segments just started at time 0, none downloaded yet, whose first segment
  (1000 bytes) is done after ten seconds.
\<close>

definition job10 :: download where
  "job10 =
     \<lparr>filename = ''video'', status = Downloading, progress = 0,
      totalSegments = Some 10, downloadedSegments = Some 0,
      fileSize = Some 10485760, downloadedBytes = Some 0, speed = Some 0, eta = Some 0,
      threads = Some 4, outputPath = ''/downloads'', outputFile = None, duration = None,
      errorMessage = None,
      segments = Some (map (\<lambda>i. ''http://host/s'' @ string_of_nat i @ ''.ts'') [0..<10])\<rparr>"

definition engine10 :: engine where
  "engine10 =
     \<lparr>store = [''job'' \<mapsto> job10],
      activeDownloads = [''job'' \<mapsto> True],
      downloadStats = [''job'' \<mapsto> \<lparr>startTime = 0, stats_downloadedBytes = 0, totalBytes = 10485760\<rparr>],
      segmentFiles = [''job'' \<mapsto> []],
      failedSegments = [''job'' \<mapsto> {}],
      disk = Map.empty, events = [], launched = []\<rparr>"

text \<open>
  A server that answers every request with status 200 and five bytes, on a disk that refuses
  the write; a server that answers 500 twice and then 200 with five bytes; and a server that
  answers every request with status 404 and a page of nine bytes.
\<close>

definition io_not_found :: "string \<Rightarrow> nat \<Rightarrow> attempt_io" where
  "io_not_found segmentUrl attempt = \<lparr>reply = Reply 404 9, writeFileError = None\<rparr>"

definition io_disk_full :: "string \<Rightarrow> nat \<Rightarrow> attempt_io" where
  "io_disk_full segmentUrl attempt =
     \<lparr>reply = Reply 200 5, writeFileError = Some ''ENOSPC: no space left on device, write''\<rparr>"

definition io_flaky :: "string \<Rightarrow> nat \<Rightarrow> attempt_io" where
  "io_flaky segmentUrl attempt =
     \<lparr>reply = (if attempt < 3 then Reply 500 0 else Reply 200 5), writeFileError = None\<rparr>"

text \<open>
  The failure of an attempt in the words of the specification: the transport fails, the
  status is not 2xx, or the body has zero bytes.
\<close>

definition attempt_fails_spec :: "attempt_io \<Rightarrow> bool" where
  "attempt_fails_spec a =
     (case reply a of
        TransportFailure e \<Rightarrow> True
      | Reply st n \<Rightarrow> \<not> (200 \<le> st \<and> st < 300) \<or> n = 0)"


section \<open>Properties\<close>

subsection \<open>The engine state under the store and event operations\<close>

lemma updateDownload_fields [simp]:
  "activeDownloads (updateDownload i f s) = activeDownloads s"
  "downloadStats (updateDownload i f s) = downloadStats s"
  "segmentFiles (updateDownload i f s) = segmentFiles s"
  "failedSegments (updateDownload i f s) = failedSegments s"
  "disk (updateDownload i f s) = disk s"
  "events (updateDownload i f s) = events s"
  "launched (updateDownload i f s) = launched s"
  by (simp_all add: updateDownload_def split: option.splits)

lemma store_updateDownload:
  "store (updateDownload i f s) j = (if j = i then map_option f (store s i) else store s j)"
  by (simp add: updateDownload_def split: option.splits)

lemma onProgress_fields [simp]:
  "store (onProgress m s) = store s"
  "activeDownloads (onProgress m s) = activeDownloads s"
  "downloadStats (onProgress m s) = downloadStats s"
  "segmentFiles (onProgress m s) = segmentFiles s"
  "failedSegments (onProgress m s) = failedSegments s"
  "disk (onProgress m s) = disk s"
  "events (onProgress m s) = events s @ [m]"
  "launched (onProgress m s) = launched s"
  by (simp_all add: onProgress_def)

lemma after_merge_fields [simp]:
  "store (after_merge i out s) = store s"
  "activeDownloads (after_merge i out s) = activeDownloads s"
  "downloadStats (after_merge i out s) = downloadStats s"
  "segmentFiles (after_merge i out s) = (segmentFiles s)(i \<mapsto> paths_after out)"
  "failedSegments (after_merge i out s) = failedSegments s"
  "disk (after_merge i out s) = disk_after out"
  "events (after_merge i out s) = events s @ map (MergeProgress i) (progress_calls out)"
  "launched (after_merge i out s) = launched s"
  by (simp_all add: after_merge_def)

lemma merge_catch_fields [simp]:
  "activeDownloads (merge_catch i msg s) = activeDownloads s"
  "downloadStats (merge_catch i msg s) = downloadStats s"
  "segmentFiles (merge_catch i msg s) = segmentFiles s"
  "failedSegments (merge_catch i msg s) = failedSegments s"
  "disk (merge_catch i msg s) = disk s"
  "launched (merge_catch i msg s) = launched s"
  "events (merge_catch i msg s) = events s @
     [DownloadStatus i Completed (Some (''Merge failed but segments downloaded: '' @ msg)) None None]"
  "store (merge_catch i msg s) j =
     (if j = i then
        map_option (\<lambda>d. d\<lparr>status := Completed,
             errorMessage := Some (''Merge failed but segments available: '' @ msg),
             progress := 100\<rparr>) (store s i)
      else store s j)"
  by (simp_all add: merge_catch_def store_updateDownload)

lemma merge_result_fields [simp]:
  "activeDownloads (merge_result i r s) = activeDownloads s"
  "downloadStats (merge_result i r s) = downloadStats s"
  "failedSegments (merge_result i r s) = failedSegments s"
  "disk (merge_result i r s) = disk s"
  "launched (merge_result i r s) = launched s"
  by (simp_all add: merge_result_def Let_def)

lemma store_merge_result_other: "j \<noteq> i \<Longrightarrow> store (merge_result i r s) j = store s j"
  by (simp add: merge_result_def Let_def store_updateDownload)

lemma merge_begin_fields [simp]:
  "activeDownloads (merge_begin i s) = activeDownloads s"
  "downloadStats (merge_begin i s) = downloadStats s"
  "segmentFiles (merge_begin i s) = segmentFiles s"
  "failedSegments (merge_begin i s) = failedSegments s"
  "disk (merge_begin i s) = disk s"
  "launched (merge_begin i s) = launched s"
  "events (merge_begin i s) = events s @ [DownloadStatus i Merging None None None]"
  "store (merge_begin i s) j =
     (if j = i then map_option (\<lambda>d. d\<lparr>status := Merging\<rparr>) (store s i) else store s j)"
  by (simp_all add: merge_begin_def store_updateDownload)

lemma appendSegments_no_fault:
  "fst (appendSegments env None d ps k handed written) \<noteq> StreamFailed e"
  by (induction ps arbitrary: k handed written)
    (simp_all add: fault_at_def split: sum.splits)

lemma bin_resolves: "\<exists>r. settled (mergeSegmentsBinary env None opts d) = Resolved r"
proof (cases "mkdirError env")
  case (Some e)
  then show ?thesis
    by (simp add: mergeSegmentsBinary_def)
next
  case None
  obtain ending handed written where
    a: "appendSegments env None (stream_file None (outputFilePath opts) 0 d)
          (sortedSegments (segmentPaths opts)) 0 [] 0 = (ending, handed, written)"
    by (cases "appendSegments env None (stream_file None (outputFilePath opts) 0 d)
          (sortedSegments (segmentPaths opts)) 0 [] 0") auto
  have "ending \<noteq> StreamFailed e" for e
    using appendSegments_no_fault [of env "stream_file None (outputFilePath opts) 0 d"
        "sortedSegments (segmentPaths opts)" 0 "[]" 0 e] a by simp
  then show ?thesis
    using None a
    by (cases ending)
      (auto simp: mergeSegmentsBinary_def Let_def fault_after_def split: option.splits)
qed

lemma mkv_resolves:
  "\<not> initializeFails env \<Longrightarrow> \<exists>r. settled (mergeSegmentsToMKV env opts d) = Resolved r"
  by (auto simp: mergeSegmentsToMKV_def Let_def split: option.splits muxer_run.splits)

lemma mkv_rejects:
  "initializeFails env \<Longrightarrow> \<exists>e. settled (mergeSegmentsToMKV env opts d) = Rejected e"
  by (simp add: mergeSegmentsToMKV_def)

lemma mkv_run_error:
  "\<not> initializeFails env \<Longrightarrow> mkdirError env = None \<Longrightarrow> writeManifestError env = None \<Longrightarrow>
   muxerRun env = RunError msg \<Longrightarrow>
   settled (mergeSegmentsToMKV env opts d) =
     Resolved \<lparr>success = False, result_outputFile = None, error = Some msg, result_duration = None\<rparr>"
  by (simp add: mergeSegmentsToMKV_def Let_def)

lemma merge_fallback_fields [simp]:
  "activeDownloads (merge_fallback env i opts s) = activeDownloads s"
  "downloadStats (merge_fallback env i opts s) = downloadStats s"
  "failedSegments (merge_fallback env i opts s) = failedSegments s"
  "launched (merge_fallback env i opts s) = launched s"
  by (simp_all add: merge_fallback_def Let_def split: settlement.splits)

lemma merge_try_fields [simp]:
  "activeDownloads (merge_try env i opts s) = activeDownloads s"
  "downloadStats (merge_try env i opts s) = downloadStats s"
  "failedSegments (merge_try env i opts s) = failedSegments s"
  "launched (merge_try env i opts s) = launched s"
  by (simp_all add: merge_try_def Let_def split: settlement.splits)

lemma mergeSegments_fields [simp]:
  "activeDownloads (mergeSegments env i s) = activeDownloads s"
  "downloadStats (mergeSegments env i s) = downloadStats s"
  "failedSegments (mergeSegments env i s) = failedSegments s"
  "launched (mergeSegments env i s) = launched s"
  by (simp_all add: mergeSegments_def Let_def split: option.splits)

lemma store_merge_catch_same:
  "store s i = Some d \<Longrightarrow>
   store (merge_catch i msg s) i =
     Some (d\<lparr>status := Completed,
             errorMessage := Some (''Merge failed but segments available: '' @ msg),
             progress := 100\<rparr>)"
  by simp

lemma store_merge_result_same:
  "store s i = Some d \<Longrightarrow>
   \<exists>d'. store (merge_result i r s) i = Some d' \<and> status d' = Completed \<and>
        downloadedSegments d' = downloadedSegments d"
  by (simp add: merge_result_def Let_def store_updateDownload)

lemma store_merge_fallback_same:
  assumes "store s i = Some d"
  shows "\<exists>d'. store (merge_fallback env i opts s) i = Some d' \<and> status d' = Completed \<and>
        downloadedSegments d' = downloadedSegments d"
proof -
  define s5 where
    "s5 = after_merge i (mergeSegmentsBinary env None opts (disk s))
            (onProgress (fallback_message i) s)"
  have st: "store s5 i = Some d"
    using assms by (simp add: s5_def)
  obtain r where "settled (mergeSegmentsBinary env None opts (disk s)) = Resolved r"
    using bin_resolves by blast
  then have "merge_fallback env i opts s = merge_result i r s5"
    by (simp add: merge_fallback_def Let_def s5_def)
  then show ?thesis
    using store_merge_result_same [OF st, of r] by simp
qed

lemma store_merge_try_same:
  assumes "store s i = Some d"
  shows "\<exists>d'. store (merge_try env i opts s) i = Some d' \<and> status d' = Completed \<and>
        downloadedSegments d' = downloadedSegments d"
proof -
  define mkv where "mkv = mergeSegmentsToMKV env opts (disk s)"
  define s3 where "s3 = after_merge i mkv s"
  have st: "store s3 i = Some d"
    using assms by (simp add: s3_def)
  show ?thesis
  proof (cases "initializeFails env")
    case False
    then obtain r where "settled mkv = Resolved r"
      using mkv_resolves unfolding mkv_def by blast
    then have "merge_try env i opts s = merge_result i r s3"
      by (simp add: merge_try_def Let_def s3_def mkv_def)
    then show ?thesis
      using store_merge_result_same [OF st, of r] by simp
  next
    case True
    then obtain e where "settled mkv = Rejected e"
      using mkv_rejects unfolding mkv_def by blast
    then have "merge_try env i opts s =
        merge_fallback env i (opts\<lparr>segmentPaths := paths_after mkv\<rparr>) s3"
      by (simp add: merge_try_def Let_def s3_def mkv_def)
    then show ?thesis
      using store_merge_fallback_same [OF st] by simp
  qed
qed

lemma store_mergeSegments_same:
  assumes "store s i = Some d"
  shows "\<exists>d'. store (mergeSegments env i s) i = Some d' \<and>
        (status d = Completed \<longrightarrow> status d' = Completed) \<and>
        downloadedSegments d' = downloadedSegments d"
proof (cases "(case segmentFiles s i of None \<Rightarrow> [] | Some fs \<Rightarrow> fs) = []")
  case True
  then have "mergeSegments env i s = s"
    using assms by (simp add: mergeSegments_def)
  then show ?thesis
    using assms by simp
next
  case False
  define files where "files = (case segmentFiles s i of None \<Rightarrow> [] | Some fs \<Rightarrow> fs)"
  have eq: "mergeSegments env i s = merge_try env i (mergeOptions_of d files) (merge_begin i s)"
    using assms False by (simp add: mergeSegments_def files_def)
  have "store (merge_begin i s) i = Some (d\<lparr>status := Merging\<rparr>)"
    using assms by simp
  from store_merge_try_same [OF this, of env "mergeOptions_of d files"] show ?thesis
    unfolding eq by auto
qed

subsection \<open>The completion rule in integers\<close>

lemma ratio_threshold:
  assumes "0 < t"
  shows "((of_int n :: rat) / of_int t \<ge> completionThreshold) = (50 * n \<ge> 49 * t)"
proof -
  have "((98::rat) / 100 \<le> of_int n / of_int t) = ((98 / 100) * of_int t \<le> (of_int n :: rat))"
    using assms by (simp add: pos_le_divide_eq)
  also have "\<dots> = ((of_int (49 * t) :: rat) \<le> of_int (50 * n))"
    by (simp add: field_simps)
  also have "\<dots> = (49 * t \<le> 50 * n)"
    by (simp only: of_int_le_iff)
  finally show ?thesis
    by (simp add: completionThreshold_def)
qed

lemma failed_bound:
  "((of_int f :: rat) \<le> max 2 (of_int t * (2 / 100))) = (f \<le> max 2 (t div 50))"
proof -
  have "((of_int f :: rat) \<le> of_int t * (2 / 100)) = ((of_int (50 * f) :: rat) \<le> of_int t)"
    by (simp add: field_simps)
  also have "\<dots> = (50 * f \<le> t)"
    by (simp only: of_int_le_iff)
  also have "\<dots> = (f \<le> t div 50)"
    by presburger
  finally have a: "((of_int f :: rat) \<le> of_int t * (2 / 100)) = (f \<le> t div 50)" .
  have b: "((of_int f :: rat) \<le> 2) = (f \<le> 2)"
    by (metis of_int_le_iff of_int_numeral)
  show ?thesis
    unfolding le_max_iff_disj by (simp only: a b)
qed

lemma shouldComplete_int:
  assumes "0 < t"
  shows "shouldComplete n t f =
     (n \<ge> t \<or> (50 * n \<ge> 49 * t \<and> n > 0) \<or> (n + f \<ge> t \<and> f \<le> max 2 (t div 50)))"
  unfolding shouldComplete_def Let_def
  by (simp only: ratio_threshold [OF assms] failed_bound)


subsection \<open>Ordering of the muxer input\<close>

lemma insert_by_insort_key:
  "insert_by (\<lambda>a b. int (f a) - int (f b)) x ys = insort_key f x ys"
  by (induction ys) auto

lemma array_sort_sort_key:
  "array_sort (\<lambda>a b. int (f a) - int (f b)) xs = sort_key f xs"
  by (induction xs) (simp_all add: array_sort_def insert_by_insort_key)

lemma sortedSegments_sort_key: "sortedSegments xs = sort_key pathIndex xs"
  unfolding sortedSegments_def compareSegments_def [abs_def]
  by (rule array_sort_sort_key)

lemma sort_key_determined:
  assumes "mset ys = mset xs"
    and "\<forall>k. filter (\<lambda>p. f p = k) ys = filter (\<lambda>p. f p = k) xs"
  shows "sort_key f ys = sort_key f xs"
proof (rule properties_for_sort_key)
  show "mset (sort_key f xs) = mset ys"
    using assms(1) by simp
  show "sorted (map f (sort_key f xs))"
    by simp
  fix k
  have "filter (\<lambda>x. f x = f k) (sort_key f xs) = filter (\<lambda>x. f x = f k) ys"
    using assms(2) by (simp add: sort_key_stable)
  moreover have "(\<lambda>x. f k = f x) = (\<lambda>x. f x = f k)"
    by auto
  ultimately show "filter (\<lambda>x. f k = f x) (sort_key f xs) = filter (\<lambda>x. f k = f x) ys"
    by simp
qed

lemma digit_small: "\<forall>d\<in>set [0..<10]. isDigit (digitChar d) \<and> digitVal (digitChar d) = d"
  by code_simp

lemma digit_ok: "d < 10 \<Longrightarrow> isDigit (digitChar d) \<and> digitVal (digitChar d) = d"
  using digit_small by simp

lemma digitsValue_snoc: "digitsValue (ds @ [c]) = 10 * digitsValue ds + digitVal c"
  by (simp add: digitsValue_def)

lemma string_of_nat_digits:
  "string_of_nat n \<noteq> [] \<and> (\<forall>c\<in>set (string_of_nat n). isDigit c) \<and>
   digitsValue (string_of_nat n) = n"
proof (induction n rule: string_of_nat.induct)
  case (1 n)
  show ?case
  proof (cases "n < 10")
    case True
    then show ?thesis
      using digit_ok [of n] by (simp add: string_of_nat.simps [of n] digitsValue_def)
  next
    case False
    then have "n mod 10 < 10"
      by simp
    then show ?thesis
      using False 1 digit_ok [of "n mod 10"]
      by (simp add: string_of_nat.simps [of n] digitsValue_snoc)
  qed
qed

lemma parseInt_string_of_nat: "parseInt (string_of_nat n) = to_double n"
  using string_of_nat_digits [of n] by (simp add: parseInt_def)

lemma to_double_exact: "n < 2 ^ 53 \<Longrightarrow> to_double n = n"
  by (simp add: to_double_def)

lemma match_at_index:
  assumes "ds \<noteq> []" and "\<forall>c\<in>set ds. isDigit c"
  shows "match_at (''_segment_'' @ ds @ ''.'' @ t) = Some (parseInt ds)"
proof -
  have nd: "\<not> isDigit CHR ''.''"
    by (simp add: isDigit_def)
  have tw: "takeWhile isDigit (ds @ CHR ''.'' # t) = ds"
    using assms(2) nd by (simp add: takeWhile_tail)
  have dw: "dropWhile isDigit (ds @ CHR ''.'' # t) = CHR ''.'' # t"
    using assms(2) nd by (simp add: dropWhile_append3)
  show ?thesis
    using assms(1) by (simp add: match_at_def startsWith_def Let_def tw dw)
qed

lemma underscore_positions: "\<forall>k\<in>set [1..<8]. ''_segment_'' ! k \<noteq> CHR ''_''"
  by code_simp

lemma no_early_match:
  assumes "p \<noteq> []" and "\<not> str_includes p ''_segment''"
  shows "match_at (p @ ''_segment_'' @ t) = None"
proof -
  have "\<not> startsWith (p @ ''_segment_'' @ t) ''_segment_''"
  proof
    assume sw: "startsWith (p @ ''_segment_'' @ t) ''_segment_''"
    have len: "length ''_segment_'' = 9"
      by simp
    have tk: "take 9 (p @ ''_segment_'' @ t) = ''_segment_''"
      using sw unfolding startsWith_def len .
    show False
    proof (cases "8 \<le> length p")
      case True
      have "take 8 (take 9 (p @ ''_segment_'' @ t)) = take 8 ''_segment_''"
        by (simp only: tk)
      then have "take 8 p = ''_segment''"
        using True by simp
      moreover have "length ''_segment'' = 8"
        by simp
      ultimately have "startsWith p ''_segment''"
        unfolding startsWith_def by (simp only:)
      then have "str_includes p ''_segment''"
        using assms(1) by (cases p) simp_all
      then show False
        using assms(2) by simp
    next
      case False
      then have k: "length p < 8" "0 < length p"
        using assms(1) by simp_all
      have "take 9 (p @ ''_segment_'' @ t) ! length p = (p @ ''_segment_'' @ t) ! length p"
        using k(1) by (intro nth_take) simp
      also have "\<dots> = CHR ''_''"
        by (simp add: nth_append)
      finally have "''_segment_'' ! length p = CHR ''_''"
        by (simp only: tk)
      moreover have "length p \<in> set [1..<8]"
        using k by (cases p) simp_all
      ultimately show False
        using underscore_positions by blast
    qed
  qed
  then show ?thesis
    by (simp add: match_at_def)
qed

lemma regex_match_skip:
  "\<not> str_includes pre ''_segment'' \<Longrightarrow>
   regex_match (pre @ ''_segment_'' @ t) = regex_match (''_segment_'' @ t)"
proof (induction pre)
  case Nil
  show ?case by simp
next
  case (Cons c cs)
  then have "\<not> str_includes cs ''_segment''"
    by simp
  moreover have "match_at ((c # cs) @ ''_segment_'' @ t) = None"
    using Cons.prems by (intro no_early_match) simp_all
  ultimately show ?case
    using Cons.IH by simp
qed

lemma pathIndex_segmentPath:
  assumes "\<not> str_includes (outputPath d @ ''/'' @ filename d) ''_segment''"
  shows "pathIndex (segmentPath d i) = to_double i"
proof -
  have "segmentPath d i =
      (outputPath d @ ''/'' @ filename d) @ ''_segment_'' @ string_of_nat i @ ''.'' @ ''ts''"
    by (simp add: segmentPath_def path_join_def)
  then have "regex_match (segmentPath d i) =
      regex_match (''_segment_'' @ string_of_nat i @ ''.'' @ ''ts'')"
    using regex_match_skip [OF assms] by simp
  also have "\<dots> = Some (to_double i)"
    using match_at_index [of "string_of_nat i" "''ts''"] string_of_nat_digits [of i]
    by (simp add: parseInt_string_of_nat)
  finally show ?thesis
    by (simp add: pathIndex_def)
qed

lemma sortedSegments_stable:
  "sorted (map pathIndex (sortedSegments xs))"
  "mset (sortedSegments xs) = mset xs"
  "filter (\<lambda>p. pathIndex p = k) (sortedSegments xs) = filter (\<lambda>p. pathIndex p = k) xs"
  unfolding sortedSegments_sort_key by (simp_all add: sort_key_stable)

lemma sortedSegments_determined:
  assumes "mset ys = mset xs"
    and "\<forall>k. filter (\<lambda>p. pathIndex p = k) ys = filter (\<lambda>p. pathIndex p = k) xs"
  shows "sortedSegments ys = sortedSegments xs"
  using assms unfolding sortedSegments_sort_key by (intro sort_key_determined) simp_all

lemma sortedSegments_all_tied:
  assumes "\<forall>p\<in>set xs. pathIndex p = n"
  shows "sortedSegments xs = xs"
proof -
  have "filter (\<lambda>p. pathIndex p = n) (sortedSegments xs) = filter (\<lambda>p. pathIndex p = n) xs"
    by (rule sortedSegments_stable(3))
  moreover have "\<forall>p\<in>set (sortedSegments xs). pathIndex p = n"
    using assms sortedSegments_stable(2) [of xs] by (metis set_mset_mset)
  ultimately show ?thesis
    using assms by (simp add: filter_id_conv)
qed

lemma mkv_manifest:
  "\<not> initializeFails env \<Longrightarrow> mkdirError env = None \<Longrightarrow> writeManifestError env = None \<Longrightarrow>
   manifest (mergeSegmentsToMKV env opts d) =
     Some (concatContent (sortedSegments (segmentPaths opts)))"
  by (simp add: mergeSegmentsToMKV_def Let_def split: option.splits muxer_run.splits)

lemma mkv_paths_after:
  "\<not> initializeFails env \<Longrightarrow> mkdirError env = None \<Longrightarrow>
   paths_after (mergeSegmentsToMKV env opts d) = sortedSegments (segmentPaths opts)"
  by (simp add: mergeSegmentsToMKV_def Let_def split: option.splits muxer_run.splits)

lemma appendSegments_handed:
  "appendSegments env fault d ps k handed written = (LoopDone, h, w) \<Longrightarrow> h = handed @ ps"
proof (induction ps arbitrary: k handed written)
  case Nil
  then show ?case by simp
next
  case (Cons p ps)
  from Cons.prems obtain n where
    "appendSegments env fault d ps (Suc k) (handed @ [p]) (written + n) = (LoopDone, h, w)"
    by (auto split: option.splits sum.splits)
  from Cons.IH [OF this] show ?case by simp
qed

lemma appendSegments_prefix:
  "appendSegments env fault d ps k handed written = (ending, h, w) \<Longrightarrow>
   \<exists>qs. h = handed @ take qs ps"
proof (induction ps arbitrary: k handed written)
  case Nil
  then show ?case by simp
next
  case (Cons p ps)
  show ?case
  proof (cases "fault_at fault k")
    case (Some e)
    then have "h = handed" using Cons.prems by simp
    then show ?thesis by (intro exI [of _ 0]) simp
  next
    case None
    show ?thesis
    proof (cases "readFile env d p")
      case (Inl e)
      then have "h = handed" using Cons.prems None by simp
      then show ?thesis by (intro exI [of _ 0]) simp
    next
      case (Inr n)
      then have "appendSegments env fault d ps (Suc k) (handed @ [p]) (written + n) = (ending, h, w)"
        using Cons.prems None by simp
      from Cons.IH [OF this] obtain qs where "h = (handed @ [p]) @ take qs ps"
        by blast
      then show ?thesis by (intro exI [of _ "Suc qs"]) simp
    qed
  qed
qed

lemma bin_appended:
  assumes "succeeded (mergeSegmentsBinary env fault opts d)"
  shows "appended (mergeSegmentsBinary env fault opts d) = sortedSegments (segmentPaths opts)"
proof -
  let ?d1 = "stream_file fault (outputFilePath opts) 0 d"
  obtain ending h w where
    a: "appendSegments env fault ?d1 (sortedSegments (segmentPaths opts)) 0 [] 0 = (ending, h, w)"
    by (cases "appendSegments env fault ?d1 (sortedSegments (segmentPaths opts)) 0 [] 0") auto
  have "ending = LoopDone"
    using assms a
    by (cases ending)
      (auto simp: mergeSegmentsBinary_def succeeded_def Let_def failure_def split: option.splits)
  then have "h = sortedSegments (segmentPaths opts)"
    using appendSegments_handed [of env fault ?d1 "sortedSegments (segmentPaths opts)" 0 "[]" 0 h w] a
    by simp
  then show ?thesis
    using assms a \<open>ending = LoopDone\<close>
    by (auto simp: mergeSegmentsBinary_def succeeded_def Let_def failure_def split: option.splits)
qed

lemma bin_appended_prefix:
  "\<exists>n. appended (mergeSegmentsBinary env fault opts d) = take n (sortedSegments (segmentPaths opts))"
proof (cases "mkdirError env")
  case (Some e)
  then show ?thesis
    by (intro exI [of _ 0]) (simp add: mergeSegmentsBinary_def)
next
  case None
  let ?d1 = "stream_file fault (outputFilePath opts) 0 d"
  obtain ending h w where
    a: "appendSegments env fault ?d1 (sortedSegments (segmentPaths opts)) 0 [] 0 = (ending, h, w)"
    by (cases "appendSegments env fault ?d1 (sortedSegments (segmentPaths opts)) 0 [] 0") auto
  from appendSegments_prefix [OF a] obtain n where "h = take n (sortedSegments (segmentPaths opts))"
    by auto
  moreover have "appended (mergeSegmentsBinary env fault opts d) = h"
    using None a
    by (cases ending) (simp_all add: mergeSegmentsBinary_def Let_def split: option.splits)
  ultimately show ?thesis
    by blast
qed

lemma bin_paths_after:
  "mkdirError env = None \<Longrightarrow>
   paths_after (mergeSegmentsBinary env fault opts d) = sortedSegments (segmentPaths opts)"
  by (simp add: mergeSegmentsBinary_def Let_def split: option.splits prod.splits loop_end.splits)

lemma sortedSegments_nonempty: "xs \<noteq> [] \<Longrightarrow> sortedSegments xs \<noteq> []"
  using sortedSegments_stable(2) [of xs] by (metis mset_zero_iff)

lemma string_of_small_nat:
  "string_of_nat 0 = ''0''" "string_of_nat 1 = ''1''" "string_of_nat 2 = ''2''"
  "string_of_nat 3 = ''3''"
  by code_simp+

lemma job3_paths:
  "segmentPath job3 0 = ''/downloads/video_segment_0.ts''"
  "segmentPath job3 1 = ''/downloads/video_segment_1.ts''"
  "segmentPath job3 2 = ''/downloads/video_segment_2.ts''"
  "segmentPath job3 (Suc 0) = ''/downloads/video_segment_1.ts''"
  "segmentPath job3 (Suc (Suc 0)) = ''/downloads/video_segment_2.ts''"
  by code_simp+

lemma job_stem_paths:
  "segmentPath job_stem 0 = ''/downloads/show_segment_7.final_segment_0.ts''"
  "segmentPath job_stem 1 = ''/downloads/show_segment_7.final_segment_1.ts''"
  "segmentPath job_stem (Suc 0) = ''/downloads/show_segment_7.final_segment_1.ts''"
  using string_of_small_nat
  by (simp_all add: segmentPath_def path_join_def job_stem_def job3_def)

lemma digits_small: "to_double 7 = 7" "to_double 0 = 0" "to_double (Suc 0) = Suc 0"
  by (simp_all add: to_double_def)

lemma job_stem_index:
  "pathIndex ''/downloads/show_segment_7.final_segment_0.ts'' = 7"
  "pathIndex ''/downloads/show_segment_7.final_segment_1.ts'' = 7"
  by (simp_all add: pathIndex_def match_at_def startsWith_def isDigit_def parseInt_def
      digitsValue_def digitVal_def digits_small)

lemma job3_index:
  "pathIndex ''/downloads/video_segment_0.ts'' = 0"
  "pathIndex ''/downloads/video_segment_1.ts'' = 1"
  by (simp_all add: pathIndex_def match_at_def startsWith_def isDigit_def parseInt_def
      digitsValue_def digitVal_def digits_small)


lemma bit_length_example: "bit_length 9007199254740993 = 54" "bit_length 9007199254740995 = 54"
  by (simp_all add: bit_length.simps)

lemma to_double_rounds:
  "to_double 9007199254740993 = 9007199254740992"
  "to_double 9007199254740995 = 9007199254740996"
  by (simp_all add: to_double_def bit_length_example Let_def)

lemma stem_sorted:
  "sortedSegments [''/downloads/show_segment_7.final_segment_1.ts'',
                   ''/downloads/show_segment_7.final_segment_0.ts'']
   = [''/downloads/show_segment_7.final_segment_1.ts'',
      ''/downloads/show_segment_7.final_segment_0.ts'']"
  by (simp add: sortedSegments_def array_sort_def compareSegments_def job_stem_index)

lemma job3_sorted:
  "sortedSegments [''/downloads/video_segment_1.ts'', ''/downloads/video_segment_0.ts'']
   = [''/downloads/video_segment_0.ts'', ''/downloads/video_segment_1.ts'']"
  by (simp add: sortedSegments_def array_sort_def compareSegments_def job3_index)

text \<open>
  C5. The number the comparator reads from a path is that of the leftmost match of
  \<^verbatim>\<open>_segment_(\d+)\.\<close> in the whole path, so a file name stem that itself holds the
  pattern decides it. For the job with the stem \<^verbatim>\<open>show_segment_7.final\<close> the number
  found in the path of every segment file is 7; both paths of the muxer driver then keep the
  order in which they were given the files, here segment 1 before segment 0: the manifest
  written for the external muxer lists segment 1 first, and the binary concatenation appends
  segment 1 first, and both report success. For the stem \<^verbatim>\<open>video\<close> the same input,
  segment 1 before segment 0, is put into the order of the indices.
\<close>

theorem stem_with_index_pattern_keeps_completion_order:
  "segmentPath job_stem 0 = ''/downloads/show_segment_7.final_segment_0.ts'' \<and>
   segmentPath job_stem 1 = ''/downloads/show_segment_7.final_segment_1.ts'' \<and>
   pathIndex (segmentPath job_stem 0) = 7 \<and>
   pathIndex (segmentPath job_stem 1) = 7 \<and>
   manifest (mergeSegmentsToMKV env_ok
       (mergeOptions_of job_stem [segmentPath job_stem 1, segmentPath job_stem 0]) disk_stem)
     = Some (concatContent [''/downloads/show_segment_7.final_segment_1.ts'',
                            ''/downloads/show_segment_7.final_segment_0.ts'']) \<and>
   succeeded (mergeSegmentsToMKV env_ok
       (mergeOptions_of job_stem [segmentPath job_stem 1, segmentPath job_stem 0]) disk_stem) \<and>
   appended (mergeSegmentsBinary env_ok None
       (mergeOptions_of job_stem [segmentPath job_stem 1, segmentPath job_stem 0]) disk_stem)
     = [''/downloads/show_segment_7.final_segment_1.ts'',
        ''/downloads/show_segment_7.final_segment_0.ts''] \<and>
   succeeded (mergeSegmentsBinary env_ok None
       (mergeOptions_of job_stem [segmentPath job_stem 1, segmentPath job_stem 0]) disk_stem) \<and>
   manifest (mergeSegmentsToMKV env_ok
       (mergeOptions_of job3 [segmentPath job3 1, segmentPath job3 0]) (disk engine3))
     = Some (concatContent [''/downloads/video_segment_0.ts'', ''/downloads/video_segment_1.ts'']) \<and>
   appended (mergeSegmentsBinary env_ok None
       (mergeOptions_of job3 [segmentPath job3 1, segmentPath job3 0]) (disk engine3))
     = [''/downloads/video_segment_0.ts'', ''/downloads/video_segment_1.ts'']"
proof -
  have e: "\<not> initializeFails env_ok" "mkdirError env_ok = None" "writeManifestError env_ok = None"
    "muxerRun env_ok = RunEnd" "unlinkManifestError env_ok = None" "writeStreamError env_ok = None"
    "readFileError env_ok = (\<lambda>p. None)"
    by (simp_all add: env_ok_def)
  have m1: "manifest (mergeSegmentsToMKV env_ok
       (mergeOptions_of job_stem [segmentPath job_stem 1, segmentPath job_stem 0]) disk_stem)
     = Some (concatContent [''/downloads/show_segment_7.final_segment_1.ts'',
                            ''/downloads/show_segment_7.final_segment_0.ts''])"
    by (simp add: mkv_manifest e mergeOptions_of_def job_stem_paths stem_sorted)
  have s1: "succeeded (mergeSegmentsToMKV env_ok
       (mergeOptions_of job_stem [segmentPath job_stem 1, segmentPath job_stem 0]) disk_stem)"
    by (simp add: succeeded_def mergeSegmentsToMKV_def Let_def e)
  have b1: "succeeded (mergeSegmentsBinary env_ok None
       (mergeOptions_of job_stem [segmentPath job_stem 1, segmentPath job_stem 0]) disk_stem)"
    by (simp add: succeeded_def mergeSegmentsBinary_def Let_def e mergeOptions_of_def job_stem_paths
        stem_sorted stream_file_def fault_at_def fault_after_def readFile_def disk_stem_def)
  have a1: "appended (mergeSegmentsBinary env_ok None
       (mergeOptions_of job_stem [segmentPath job_stem 1, segmentPath job_stem 0]) disk_stem)
     = [''/downloads/show_segment_7.final_segment_1.ts'',
        ''/downloads/show_segment_7.final_segment_0.ts'']"
    using bin_appended [OF b1] by (simp add: mergeOptions_of_def job_stem_paths stem_sorted)
  have m2: "manifest (mergeSegmentsToMKV env_ok
       (mergeOptions_of job3 [segmentPath job3 1, segmentPath job3 0]) (disk engine3))
     = Some (concatContent [''/downloads/video_segment_0.ts'', ''/downloads/video_segment_1.ts''])"
    by (simp add: mkv_manifest e mergeOptions_of_def job3_paths job3_sorted)
  have b2: "succeeded (mergeSegmentsBinary env_ok None
       (mergeOptions_of job3 [segmentPath job3 1, segmentPath job3 0]) (disk engine3))"
    by (simp add: succeeded_def mergeSegmentsBinary_def Let_def e mergeOptions_of_def job3_paths
        job3_sorted stream_file_def fault_at_def fault_after_def readFile_def engine3_def)
  have a2: "appended (mergeSegmentsBinary env_ok None
       (mergeOptions_of job3 [segmentPath job3 1, segmentPath job3 0]) (disk engine3))
     = [''/downloads/video_segment_0.ts'', ''/downloads/video_segment_1.ts'']"
    using bin_appended [OF b2] by (simp add: mergeOptions_of_def job3_paths job3_sorted)
  have p: "pathIndex (segmentPath job_stem 0) = 7" "pathIndex (segmentPath job_stem 1) = 7"
    by (simp_all only: job_stem_paths job_stem_index)
  show ?thesis
    by (intro conjI) (rule job_stem_paths(1) job_stem_paths(2) p m1 s1 a1 b1 m2 a2)+
qed


subsection \<open>Liveness flag\<close>

text \<open>
  C9. A playlist with a \<^verbatim>\<open>#EXT-X-PLAYLIST-TYPE:VOD\<close> line followed by the
  \<^verbatim>\<open>#EXT-X-TARGETDURATION\<close> line is flagged live by the parser's loop, although a VOD
  line appears: the flag follows the last directive line that matches, so the order of the
  lines decides.
\<close>

theorem vod_before_targetduration_flagged_live:
  "list_ex (\<lambda>l. str_includes l ''#EXT-X-PLAYLIST-TYPE:VOD'') (playlist_lines vod_first_playlist) \<and>
   parsePlaylist_isLive vod_first_playlist \<and>
   \<not> isLive_spec (playlist_lines vod_first_playlist)"
proof -
  have l: "playlist_lines vod_first_playlist =
      [''#EXTM3U'', ''#EXT-X-PLAYLIST-TYPE:VOD'', ''#EXT-X-TARGETDURATION:10'', ''#EXTINF:10,'',
       ''seg0.ts'', ''#EXT-X-ENDLIST'']"
    by (simp add: playlist_lines_def vod_first_playlist_def trim_def isSpace_def)
  show ?thesis
    unfolding parsePlaylist_isLive_def l
    by (simp add: liveStep_def isLive_spec_def startsWith_def)
qed


subsection \<open>The muxer driver and the merge step of the engine\<close>

lemma cleanup_other: "p \<notin> set ps \<Longrightarrow> cleanupSegmentFiles env ps d p = d p"
  unfolding cleanupSegmentFiles_def
  by (induction ps arbitrary: d) auto

lemma mkv_fail_disk:
  "\<not> succeeded (mergeSegmentsToMKV env opts d) \<Longrightarrow>
   p \<noteq> concatFilePath opts \<Longrightarrow> p \<noteq> outputFilePath opts \<Longrightarrow>
   disk_after (mergeSegmentsToMKV env opts d) p = d p"
  by (auto simp: mergeSegmentsToMKV_def succeeded_def Let_def put_output_def failure_def
      split: option.splits muxer_run.splits if_splits)

lemma bin_fail_disk:
  "\<not> succeeded (mergeSegmentsBinary env fault opts d) \<Longrightarrow>
   p \<noteq> outputFilePath opts \<Longrightarrow>
   disk_after (mergeSegmentsBinary env fault opts d) p = d p"
  by (auto simp: mergeSegmentsBinary_def succeeded_def Let_def failure_def stream_file_def
      split: option.splits prod.splits loop_end.splits stream_fault.splits)

lemma reported_merged_snoc:
  assumes e: "events s' = xs @ [m]"
  shows "reported_merged i s' =
     (case m of DownloadStatus j st err out msg \<Rightarrow> j = i \<and> st = Completed \<and> err = None \<and> msg = None
      | _ \<Rightarrow> False)"
proof -
  have l: "last (events s') = m"
    using e by simp
  have "events s' \<noteq> []"
    using e by simp
  then obtain a as where c: "events s' = a # as"
    by (cases "events s'") auto
  show ?thesis
    unfolding reported_merged_def l by (simp add: c)
qed

lemma merge_catch_outcome:
  assumes "store s i = Some d"
  shows "store (merge_catch i msg s) i =
       Some (d\<lparr>status := Completed,
               errorMessage := Some (''Merge failed but segments available: '' @ msg),
               progress := 100\<rparr>)"
    and "\<not> reported_merged i (merge_catch i msg s)"
    and "disk (merge_catch i msg s) = disk s"
  using assms by (simp_all add: reported_merged_snoc [of _ "events s"])

lemma merge_result_success:
  assumes "store s i = Some d" and "success r"
  shows "reported_merged i (merge_result i r s)"
proof -
  have "events (merge_result i r s) =
      events s @ [DownloadStatus i Completed None (result_outputFile r) None]"
    using assms(2) by (simp add: merge_result_def Let_def)
  then show ?thesis
    by (simp add: reported_merged_snoc)
qed

lemma merge_result_failure:
  "\<not> success r \<Longrightarrow>
   merge_result i r s =
     merge_catch i (case error r of None \<Rightarrow> ''Unknown merge error''
                    | Some e \<Rightarrow> if e = [] then ''Unknown merge error'' else e) s"
  by (simp add: merge_result_def)

lemma merge_result_post:
  assumes st: "store s1 i = Some d"
    and dk: "\<not> success r \<Longrightarrow> \<forall>p. p \<noteq> concatFilePath opts \<longrightarrow> p \<noteq> outputFilePath opts \<longrightarrow> disk s1 p = disk s p"
  shows "merge_post i opts s (merge_result i r s1)"
proof (cases "success r")
  case True
  from store_merge_result_same [OF st, of r] merge_result_success [OF st True]
  show ?thesis
    unfolding merge_post_def by blast
next
  case False
  show ?thesis
    unfolding merge_post_def merge_result_failure [OF False]
    using dk [OF False] st by simp
qed

lemma paths_of_options [simp]:
  "concatFilePath (opts\<lparr>segmentPaths := ps\<rparr>) = concatFilePath opts"
  "outputFilePath (opts\<lparr>segmentPaths := ps\<rparr>) = outputFilePath opts"
  by (simp_all add: concatFilePath_def outputFilePath_def)

lemma merge_fallback_post:
  assumes st: "store s3 i = Some d"
    and dk: "\<forall>p. p \<noteq> concatFilePath opts \<longrightarrow> p \<noteq> outputFilePath opts \<longrightarrow> disk s3 p = disk s p"
  shows "merge_post i opts s (merge_fallback env i (opts\<lparr>segmentPaths := ps\<rparr>) s3)"
proof -
  define bin where "bin = mergeSegmentsBinary env None (opts\<lparr>segmentPaths := ps\<rparr>) (disk s3)"
  define s5 where "s5 = after_merge i bin (onProgress (fallback_message i) s3)"
  obtain r where r: "settled bin = Resolved r"
    using bin_resolves [of env "opts\<lparr>segmentPaths := ps\<rparr>" "disk s3"] by (auto simp: bin_def)
  have eq: "merge_fallback env i (opts\<lparr>segmentPaths := ps\<rparr>) s3 = merge_result i r s5"
    using r by (simp add: merge_fallback_def Let_def s5_def bin_def)
  have st5: "store s5 i = Some d"
    using st by (simp add: s5_def)
  have "\<forall>p. p \<noteq> concatFilePath opts \<longrightarrow> p \<noteq> outputFilePath opts \<longrightarrow> disk s5 p = disk s p"
    if "\<not> success r"
  proof -
    have "\<not> succeeded bin"
      using that r by (simp add: succeeded_def)
    then have "disk_after bin p = disk s3 p" if "p \<noteq> outputFilePath opts" for p
      using bin_fail_disk [of env None "opts\<lparr>segmentPaths := ps\<rparr>" "disk s3" p] that
      by (simp add: bin_def)
    then show ?thesis
      using dk by (simp add: s5_def)
  qed
  then show ?thesis
    unfolding eq by (intro merge_result_post [OF st5]) simp
qed

lemma merge_try_post:
  assumes st: "store s2 i = Some d"
  shows "merge_post i opts s2 (merge_try env i opts s2)"
proof -
  define mkv where "mkv = mergeSegmentsToMKV env opts (disk s2)"
  define s3 where "s3 = after_merge i mkv s2"
  have st3: "store s3 i = Some d"
    using st by (simp add: s3_def)
  have keep: "\<forall>p. p \<noteq> concatFilePath opts \<longrightarrow> p \<noteq> outputFilePath opts \<longrightarrow> disk s3 p = disk s2 p"
    if "\<not> succeeded mkv"
    using mkv_fail_disk [of env opts "disk s2"] that by (simp add: s3_def mkv_def)
  show ?thesis
  proof (cases "initializeFails env")
    case False
    then obtain r where r: "settled mkv = Resolved r"
      using mkv_resolves unfolding mkv_def by blast
    then have eq: "merge_try env i opts s2 = merge_result i r s3"
      by (simp add: merge_try_def Let_def s3_def mkv_def)
    have "\<not> success r \<Longrightarrow> \<not> succeeded mkv"
      using r by (simp add: succeeded_def)
    then show ?thesis
      unfolding eq using keep by (intro merge_result_post [OF st3]) simp
  next
    case True
    then obtain e where e: "settled mkv = Rejected e"
      using mkv_rejects unfolding mkv_def by blast
    then have eq: "merge_try env i opts s2 =
        merge_fallback env i (opts\<lparr>segmentPaths := paths_after mkv\<rparr>) s3"
      by (simp add: merge_try_def Let_def s3_def mkv_def)
    have "\<not> succeeded mkv"
      using e by (simp add: succeeded_def)
    then show ?thesis
      unfolding eq using keep by (intro merge_fallback_post [OF st3]) simp
  qed
qed

lemma segmentPath_last: "last (segmentPath d k) = CHR ''s''"
  by (simp add: segmentPath_def path_join_def)

lemma segmentPath_not_manifest:
  "segmentPath d k \<noteq> concatFilePath (mergeOptions_of d' files)"
  "segmentPath d k \<noteq> outputFilePath (mergeOptions_of d' files)"
proof -
  have "last (concatFilePath (mergeOptions_of d' files)) = CHR ''t''"
    by (simp add: concatFilePath_def path_join_def)
  then show "segmentPath d k \<noteq> concatFilePath (mergeOptions_of d' files)"
    using segmentPath_last [of d k] by auto
  have "last (outputFilePath (mergeOptions_of d' files)) = CHR ''v''"
    by (simp add: outputFilePath_def path_join_def)
  then show "segmentPath d k \<noteq> outputFilePath (mergeOptions_of d' files)"
    using segmentPath_last [of d k] by auto
qed

lemma mergeSegments_started:
  assumes "store s i = Some d" and "segmentFiles s i = Some files" and "files \<noteq> []"
  shows "mergeSegments env i s = merge_try env i (mergeOptions_of d files) (merge_begin i s)"
  using assms by (simp add: mergeSegments_def)

lemma mergeSegments_run_error:
  assumes "store s i = Some d" and "segmentFiles s i = Some files" and "files \<noteq> []"
    and "\<not> initializeFails env" and "mkdirError env = None" and "writeManifestError env = None"
    and "muxerRun env = RunError msg"
  shows "mergeSegments env i s =
     merge_catch i (if msg = [] then ''Unknown merge error'' else msg)
       (after_merge i (mergeSegmentsToMKV env (mergeOptions_of d files) (disk s)) (merge_begin i s))"
  unfolding mergeSegments_started [OF assms(1-3)] merge_try_def Let_def
  by (simp add: mkv_run_error [OF assms(4-7)] merge_result_failure)

lemma merge_result_events:
  "\<exists>m. events (merge_result i r s) = events s @ [m] \<and> m \<noteq> fallback_message i"
  by (simp add: merge_result_def Let_def fallback_message_def)

lemma mergeSegments_no_fallback:
  assumes "\<not> initializeFails env"
  shows "\<exists>new. events (mergeSegments env i s) = events s @ new \<and> fallback_message i \<notin> set new"
proof (cases "store s i")
  case None
  then show ?thesis
    by (simp add: mergeSegments_def)
next
  case (Some d)
  show ?thesis
  proof (cases "(case segmentFiles s i of None \<Rightarrow> [] | Some fs \<Rightarrow> fs) = []")
    case True
    then show ?thesis
      using Some by (simp add: mergeSegments_def)
  next
    case False
    define files where "files = (case segmentFiles s i of None \<Rightarrow> [] | Some fs \<Rightarrow> fs)"
    define mkv where "mkv = mergeSegmentsToMKV env (mergeOptions_of d files) (disk (merge_begin i s))"
    define s3 where "s3 = after_merge i mkv (merge_begin i s)"
    obtain r where r: "settled mkv = Resolved r"
      using mkv_resolves [OF assms] by (auto simp: mkv_def)
    have eq: "mergeSegments env i s = merge_result i r s3"
      using Some False r
      by (simp add: mergeSegments_def merge_try_def Let_def files_def mkv_def s3_def)
    obtain m where m: "events (merge_result i r s3) = events s3 @ [m]" "m \<noteq> fallback_message i"
      using merge_result_events by blast
    have "events s3 = events s @ DownloadStatus i Merging None None None
        # map (MergeProgress i) (progress_calls mkv)"
      by (simp add: s3_def)
    then have "events (mergeSegments env i s) =
        events s @ (DownloadStatus i Merging None None None
          # map (MergeProgress i) (progress_calls mkv) @ [m])"
      by (simp add: eq m(1))
    moreover have "fallback_message i \<notin> set (DownloadStatus i Merging None None None
          # map (MergeProgress i) (progress_calls mkv) @ [m])"
      using m(2) by (auto simp: fallback_message_def)
    ultimately show ?thesis
      by blast
  qed
qed


text \<open>
  C4. For a stored job with segment files to merge, whatever the surroundings do, the job is
  stored as completed after \<^verbatim>\<open>mergeSegments\<close>, and either the merge is reported as
  done, or the job's error message describes the failed merge and every segment file of the
  job is on disk as before: segment files are deleted only by a merge that succeeds. When
  the run of the external muxer fails, the merge is not reported as done and the error
  message carries the muxer's message.
\<close>

theorem merge_failure_keeps_job_completed:
  assumes "store s downloadId = Some d" and "segmentFiles s downloadId = Some files"
    and "files \<noteq> []"
  shows "\<exists>d'. store (mergeSegments env downloadId s) downloadId = Some d' \<and>
      status d' = Completed \<and>
      (reported_merged downloadId (mergeSegments env downloadId s) \<or>
       ((\<exists>m. errorMessage d' = Some (''Merge failed but segments available: '' @ m)) \<and>
        (\<forall>k. disk (mergeSegments env downloadId s) (segmentPath d k) = disk s (segmentPath d k)))) \<and>
      (\<not> initializeFails env \<and> mkdirError env = None \<and> writeManifestError env = None \<and>
       muxerRun env = RunError msg \<longrightarrow>
         \<not> reported_merged downloadId (mergeSegments env downloadId s) \<and>
         errorMessage d' = Some (''Merge failed but segments available: ''
                                  @ (if msg = [] then ''Unknown merge error'' else msg)))"
proof -
  let ?s' = "mergeSegments env downloadId s"
  let ?opts = "mergeOptions_of d files"
  have b: "store (merge_begin downloadId s) downloadId = Some (d\<lparr>status := Merging\<rparr>)"
    using assms(1) by simp
  from merge_try_post [OF b, of ?opts env]
  obtain d' where d': "store ?s' downloadId = Some d'" "status d' = Completed"
    "reported_merged downloadId ?s' \<or>
      ((\<exists>m. errorMessage d' = Some (''Merge failed but segments available: '' @ m)) \<and>
       (\<forall>p. p \<noteq> concatFilePath ?opts \<longrightarrow> p \<noteq> outputFilePath ?opts \<longrightarrow>
          disk ?s' p = disk (merge_begin downloadId s) p))"
    unfolding merge_post_def mergeSegments_started [OF assms] by blast
  have general: "reported_merged downloadId ?s' \<or>
      ((\<exists>m. errorMessage d' = Some (''Merge failed but segments available: '' @ m)) \<and>
       (\<forall>k. disk ?s' (segmentPath d k) = disk s (segmentPath d k)))"
    using d'(3) segmentPath_not_manifest [of d _ d files] by auto
  have special: "\<not> reported_merged downloadId ?s' \<and>
      errorMessage d' = Some (''Merge failed but segments available: ''
                               @ (if msg = [] then ''Unknown merge error'' else msg))"
    if h: "\<not> initializeFails env \<and> mkdirError env = None \<and> writeManifestError env = None \<and>
       muxerRun env = RunError msg"
  proof -
    let ?s3 = "after_merge downloadId (mergeSegmentsToMKV env ?opts (disk s)) (merge_begin downloadId s)"
    have eq: "?s' = merge_catch downloadId (if msg = [] then ''Unknown merge error'' else msg) ?s3"
      using h by (intro mergeSegments_run_error assms) simp_all
    have st3: "store ?s3 downloadId = Some (d\<lparr>status := Merging\<rparr>)"
      using assms(1) by simp
    show ?thesis
      using d'(1) merge_catch_outcome(1,2) [OF st3, of "if msg = [] then ''Unknown merge error'' else msg"]
      unfolding eq by auto
  qed
  show ?thesis
    using d'(1,2) general special by blast
qed

theorem merge_failure_keeps_job_completed_witness:
  "\<exists>d'. store (mergeSegments env_run_error ''job'' engine3) ''job'' = Some d' \<and>
      status d' = Completed \<and>
      errorMessage d' = Some ''Merge failed but segments available: ffmpeg exited with code 1'' \<and>
      disk (mergeSegments env_run_error ''job'' engine3) (segmentPath job3 0) = Some 1024 \<and>
      disk (mergeSegments env_run_error ''job'' engine3) (segmentPath job3 1) = Some 1024"
proof -
  have ne: "segmentPath job3 1 \<noteq> segmentPath job3 0"
    by (simp add: segmentPath_def path_join_def string_of_nat.simps digitChar_def)
  have h: "store engine3 ''job'' = Some job3"
    "segmentFiles engine3 ''job'' = Some [segmentPath job3 1, segmentPath job3 0]"
    "[segmentPath job3 1, segmentPath job3 0] \<noteq> []"
    by (simp_all add: engine3_def)
  have e: "\<not> initializeFails env_run_error \<and> mkdirError env_run_error = None \<and>
      writeManifestError env_run_error = None \<and>
      muxerRun env_run_error = RunError ''ffmpeg exited with code 1''"
    by (simp add: env_run_error_def env_ok_def)
  have d: "disk engine3 (segmentPath job3 0) = Some 1024" "disk engine3 (segmentPath job3 1) = Some 1024"
    using ne by (simp_all add: engine3_def)
  show ?thesis
    using merge_failure_keeps_job_completed [OF h, of env_run_error "''ffmpeg exited with code 1''"] e d
    by auto
qed


lemma bin_open_failure_uncaught:
  assumes "mkdirError env = None" and "segmentPaths opts \<noteq> []"
  shows "settled (mergeSegmentsBinary env (Some (OpenFails e)) opts d) = Uncaught e"
proof -
  obtain p ps where s: "sortedSegments (segmentPaths opts) = p # ps"
    using sortedSegments_nonempty [OF assms(2)] by (cases "sortedSegments (segmentPaths opts)") auto
  show ?thesis
    using assms(1) by (simp add: mergeSegmentsBinary_def Let_def s fault_at_def)
qed

lemma bin_open_failure_no_segments:
  assumes "mkdirError env = None" and "segmentPaths opts = []"
  shows "settled (mergeSegmentsBinary env (Some (OpenFails e)) opts d) =
     Resolved \<lparr>success = False, result_outputFile = None,
               error = Some (''Binary merge failed: '' @ e), result_duration = None\<rparr>"
  using assms
  by (simp add: mergeSegmentsBinary_def Let_def sortedSegments_def array_sort_def
      fault_after_def failure_def)

text \<open>
  C10. \<^verbatim>\<open>mergeSegmentsBinary\<close> attaches the listener for the \<^verbatim>\<open>error\<close> event of its
  output stream only after the loop over the segments. For the job of three segments with two
  files to merge: when the output file cannot be opened, or the write of the first file
  fails, the event comes during the loop and the call ends in an uncaught exception instead
  of a result; the failure of the last write, and a failed open when there is no file to
  merge, are caught and resolved to \<^verbatim>\<open>success: false\<close>. A failed run of the external
  muxer resolves to \<^verbatim>\<open>success: false\<close> with the muxer's message, and the engine then
  never sends the message of the fallback to binary concatenation.
\<close>

theorem stream_error_during_binary_merge_is_uncaught:
  "settled (mergeSegmentsBinary env_ok (Some (OpenFails ''EACCES: permission denied, open''))
       (mergeOptions_of job3 [segmentPath job3 1, segmentPath job3 0]) (disk engine3))
     = Uncaught ''EACCES: permission denied, open'' \<and>
   settled (mergeSegmentsBinary env_ok
       (Some (WriteFails 0 ''ENOSPC: no space left on device, write''))
       (mergeOptions_of job3 [segmentPath job3 1, segmentPath job3 0]) (disk engine3))
     = Uncaught ''ENOSPC: no space left on device, write'' \<and>
   settled (mergeSegmentsBinary env_ok
       (Some (WriteFails 1 ''ENOSPC: no space left on device, write''))
       (mergeOptions_of job3 [segmentPath job3 1, segmentPath job3 0]) (disk engine3))
     = Resolved \<lparr>success = False, result_outputFile = None,
         error = Some ''Binary merge failed: ENOSPC: no space left on device, write'',
         result_duration = None\<rparr> \<and>
   settled (mergeSegmentsBinary env_ok (Some (OpenFails ''EACCES: permission denied, open''))
       (mergeOptions_of job3 []) (disk engine3))
     = Resolved \<lparr>success = False, result_outputFile = None,
         error = Some ''Binary merge failed: EACCES: permission denied, open'',
         result_duration = None\<rparr> \<and>
   settled (mergeSegmentsToMKV env_run_error
       (mergeOptions_of job3 [segmentPath job3 1, segmentPath job3 0]) (disk engine3))
     = Resolved \<lparr>success = False, result_outputFile = None,
         error = Some ''ffmpeg exited with code 1'', result_duration = None\<rparr> \<and>
   fallback_message ''job'' \<notin> set (events (mergeSegments env_run_error ''job'' engine3))"
proof -
  have e: "mkdirError env_ok = None" "writeStreamError env_ok = None"
    "readFileError env_ok = (\<lambda>p. None)"
    by (simp_all add: env_ok_def)
  have r: "\<not> initializeFails env_run_error" "mkdirError env_run_error = None"
      "writeManifestError env_run_error = None"
      "muxerRun env_run_error = RunError ''ffmpeg exited with code 1''"
    by (simp_all add: env_run_error_def env_ok_def)
  have o: "segmentPaths (mergeOptions_of job3 [segmentPath job3 1, segmentPath job3 0]) \<noteq> []"
    "segmentPaths (mergeOptions_of job3 []) = []"
    by (simp_all add: mergeOptions_of_def)
  have c1: "settled (mergeSegmentsBinary env_ok (Some (OpenFails ''EACCES: permission denied, open''))
       (mergeOptions_of job3 [segmentPath job3 1, segmentPath job3 0]) (disk engine3))
     = Uncaught ''EACCES: permission denied, open''"
    by (rule bin_open_failure_uncaught [OF e(1) o(1)])
  have c2: "settled (mergeSegmentsBinary env_ok
       (Some (WriteFails 0 ''ENOSPC: no space left on device, write''))
       (mergeOptions_of job3 [segmentPath job3 1, segmentPath job3 0]) (disk engine3))
     = Uncaught ''ENOSPC: no space left on device, write''"
    by (simp add: mergeSegmentsBinary_def Let_def e mergeOptions_of_def job3_paths
        job3_sorted stream_file_def fault_at_def fault_after_def readFile_def engine3_def)
  have c3: "settled (mergeSegmentsBinary env_ok
       (Some (WriteFails 1 ''ENOSPC: no space left on device, write''))
       (mergeOptions_of job3 [segmentPath job3 1, segmentPath job3 0]) (disk engine3))
     = Resolved \<lparr>success = False, result_outputFile = None,
         error = Some ''Binary merge failed: ENOSPC: no space left on device, write'',
         result_duration = None\<rparr>"
    by (simp add: mergeSegmentsBinary_def Let_def e mergeOptions_of_def job3_paths
        job3_sorted stream_file_def fault_at_def fault_after_def readFile_def engine3_def
        failure_def)
  have c4: "settled (mergeSegmentsBinary env_ok (Some (OpenFails ''EACCES: permission denied, open''))
       (mergeOptions_of job3 []) (disk engine3))
     = Resolved \<lparr>success = False, result_outputFile = None,
         error = Some ''Binary merge failed: EACCES: permission denied, open'',
         result_duration = None\<rparr>"
    using bin_open_failure_no_segments [OF e(1) o(2), of "''EACCES: permission denied, open''"]
    by simp
  have c5: "settled (mergeSegmentsToMKV env_run_error
       (mergeOptions_of job3 [segmentPath job3 1, segmentPath job3 0]) (disk engine3))
     = Resolved \<lparr>success = False, result_outputFile = None,
         error = Some ''ffmpeg exited with code 1'', result_duration = None\<rparr>"
    by (rule mkv_run_error [OF r])
  have "events engine3 = []"
    by (simp add: engine3_def)
  then have c6: "fallback_message ''job'' \<notin> set (events (mergeSegments env_run_error ''job'' engine3))"
    using mergeSegments_no_fallback [OF r(1), of "''job''" engine3] by auto
  show ?thesis
    by (intro conjI) (rule c1 c2 c3 c4 c5 c6)+
qed


subsection \<open>Completion check\<close>

lemma checkDownloadCompletion_launched [simp]:
  "launched (checkDownloadCompletion env i s) = launched s"
  by (simp add: checkDownloadCompletion_def Let_def split: option.splits)

lemma checkDownloadCompletion_disk_unless:
  "\<not> shouldComplete (or_else (downloadedSegments d) 0) (or_else (totalSegments d) 1)
        (failedCount s i) \<Longrightarrow>
   store s i = Some d \<Longrightarrow> checkDownloadCompletion env i s = s"
  by (simp add: checkDownloadCompletion_def Let_def)

lemma store_checkDownloadCompletion:
  assumes "store s i = Some d"
  shows "\<exists>d'. store (checkDownloadCompletion env i s) i = Some d' \<and>
      downloadedSegments d' = downloadedSegments d \<and>
      (if shouldComplete (or_else (downloadedSegments d) 0) (or_else (totalSegments d) 1)
            (failedCount s i)
       then status d' = Completed else d' = d)"
proof (cases "shouldComplete (or_else (downloadedSegments d) 0) (or_else (totalSegments d) 1)
    (failedCount s i)")
  case False
  then show ?thesis
    using assms checkDownloadCompletion_disk_unless [OF False assms, of env] by simp
next
  case True
  define fp where "fp = min 100 (js_round
      ((of_int (or_else (downloadedSegments d) 0) :: rat) / of_int (or_else (totalSegments d) 1) * 100))"
  define s1 where "s1 = updateDownload i (\<lambda>d. d\<lparr>status := Completed, progress := of_int fp\<rparr>) s"
  have st1: "store s1 i = Some (d\<lparr>status := Completed, progress := of_int fp\<rparr>)"
    using assms by (simp add: s1_def store_updateDownload)
  from store_mergeSegments_same [OF st1, of env] obtain d' where
    d': "store (mergeSegments env i s1) i = Some d'" "status d' = Completed"
      "downloadedSegments d' = downloadedSegments d"
    by auto
  have "store (checkDownloadCompletion env i s) = store (mergeSegments env i s1)"
    using assms True
    by (simp add: checkDownloadCompletion_def Let_def s1_def fp_def)
  then show ?thesis
    using d' True by simp
qed

text \<open>
  C1, as amended. For a stored job with a positive total that is not yet completed, the job is
  completed after the completion check exactly when: the downloaded segments reach the
  total, or they are at least 98 percent of it and more than zero, or downloaded plus failed
  reach the total and the number of failed segments is at most the larger of 2 and the total
  times 0.02, compared without rounding upwards (for a whole number of failed segments that is
  the total divided by 50, rounded down).
\<close>

theorem completion_check_decision:
  assumes "store s downloadId = Some d" and "totalSegments d = Some t" and "0 < t"
    and "status d \<noteq> Completed"
  shows "\<exists>d'. store (checkDownloadCompletion env downloadId s) downloadId = Some d' \<and>
      ((status d' = Completed) =
        (or_else (downloadedSegments d) 0 \<ge> t \<or>
         (50 * or_else (downloadedSegments d) 0 \<ge> 49 * t \<and> or_else (downloadedSegments d) 0 > 0) \<or>
         (or_else (downloadedSegments d) 0 + failedCount s downloadId \<ge> t \<and>
          failedCount s downloadId \<le> max 2 (t div 50))))"
proof -
  have t: "or_else (totalSegments d) 1 = t"
    using assms(2,3) by (simp add: or_else_def)
  from store_checkDownloadCompletion [OF assms(1), of env] obtain d' where
    d': "store (checkDownloadCompletion env downloadId s) downloadId = Some d'"
      "if shouldComplete (or_else (downloadedSegments d) 0) t (failedCount s downloadId)
       then status d' = Completed else d' = d"
    unfolding t by blast
  have "(status d' = Completed) =
      shouldComplete (or_else (downloadedSegments d) 0) t (failedCount s downloadId)"
    using d'(2) assms(4) by (auto split: if_splits)
  then show ?thesis
    using d'(1) by (simp add: shouldComplete_int [OF assms(3)])
qed

theorem completion_check_decision_witness:
  "\<exists>d'. store (checkDownloadCompletion env_ok ''job'' engine3) ''job'' = Some d' \<and>
        status d' = Completed"
proof -
  have h: "store engine3 ''job'' = Some job3" "totalSegments job3 = Some 3" "(0::int) < 3"
    "status job3 \<noteq> Completed"
    by (simp_all add: engine3_def job3_def)
  have f: "failedCount engine3 ''job'' = 1"
    by (simp add: failedCount_def engine3_def)
  show ?thesis
    using completion_check_decision [OF h, of env_ok]
    by (simp add: f or_else_def job3_def)
qed

text \<open>
  With 98 of 101 segments downloaded and 3 failed, the rule of the specification (ceiling of
  2.02 is 3) completes the job; the check does not (3 exceeds 2.02).
\<close>

theorem completion_rule_ceiling_counterexample:
  "\<not> shouldComplete 98 101 3 \<and> completion_rule_spec 98 101 3"
  by (simp add: shouldComplete_int completion_rule_spec_def)


subsection \<open>Progress accounting\<close>

text \<open>
  C6. In \<^verbatim>\<open>updateDownloadProgress\<close> the new count is the stored count plus one, so the
  divisor of the average segment time, new count minus stored count plus one, is always 2:
  the average is half the elapsed time whatever number of segments this run has downloaded.
  When the first segment of a run of ten is done after ten seconds (1000 bytes), the
  function stores progress 10, speed 100 and the estimate 45; with the elapsed time divided
  by the one segment downloaded in this run, as the specification says, the estimate is 90.
\<close>

theorem eta_divides_elapsed_time_by_two:
  "avgSegmentTime elapsed (or_else stored 0 + 1) stored = elapsed / 2 \<and>
   map_option eta (store (updateDownloadProgress 10000 ''job'' 0 1000 (Some 10) engine10) ''job'')
     = Some (Some 45) \<and>
   map_option progress (store (updateDownloadProgress 10000 ''job'' 0 1000 (Some 10) engine10) ''job'')
     = Some 10 \<and>
   map_option speed (store (updateDownloadProgress 10000 ''job'' 0 1000 (Some 10) engine10) ''job'')
     = Some (Some 100) \<and>
   eta_spec 10 1 0 10 1 = 90"
  by (simp add: avgSegmentTime_def updateDownloadProgress_def engine10_def job10_def Let_def
      or_else_def elapsedSeconds_def failedCount_def store_updateDownload js_round_def eta_spec_def
      floor_eq_iff)


subsection \<open>Start of a job\<close>

text \<open>
  C7. For a stored job whose segment array is empty, \<^verbatim>\<open>startDownload\<close> throws nothing
  and leaves the job in status \<^verbatim>\<open>downloading\<close>: the guard tests the array for being
  there, and an empty array is there. For an id without a record it throws the error whose
  message names both causes.
\<close>

theorem start_accepts_empty_segment_list:
  "fst (startDownload env_ok 0 None ''job'' engine_empty) = None \<and>
   map_option status (store (snd (startDownload env_ok 0 None ''job'' engine_empty)) ''job'')
     = Some Downloading \<and>
   fst (startDownload env_ok 0 None ''other'' engine_empty)
     = Some ''Download not found or no segments available''"
  by (simp add: startDownload_def engine_empty_def job_empty_def Let_def checkExistingSegments_def
      store_updateDownload checkDownloadCompletion_def or_else_def failedCount_def
      shouldComplete_def completionThreshold_def updateDownload_def onProgress_def)


lemma checkExisting_loop_lists:
  "existingSegments (checkExisting_loop dk dl xs acc) =
     existingSegments acc @ filter (\<lambda>(k, u). hasContent dk (segmentPath dl k)) xs"
  "missingSegments (checkExisting_loop dk dl xs acc) =
     missingSegments acc @ filter (\<lambda>(k, u). \<not> hasContent dk (segmentPath dl k)) xs"
  "existingSegmentPaths (checkExisting_loop dk dl xs acc) =
     existingSegmentPaths acc
     @ map (\<lambda>(k, u). segmentPath dl k) (filter (\<lambda>(k, u). hasContent dk (segmentPath dl k)) xs)"
  by (induction dk dl xs acc rule: checkExisting_loop.induct) simp_all

lemma checkExistingSegments_lists:
  "existingSegments (checkExistingSegments dk dl segs) =
     filter (\<lambda>(k, u). hasContent dk (segmentPath dl k)) (enumerate 0 segs)"
  "missingSegments (checkExistingSegments dk dl segs) =
     filter (\<lambda>(k, u). \<not> hasContent dk (segmentPath dl k)) (enumerate 0 segs)"
  "existingSegmentPaths (checkExistingSegments dk dl segs) =
     map (\<lambda>(k, u). segmentPath dl k)
       (filter (\<lambda>(k, u). hasContent dk (segmentPath dl k)) (enumerate 0 segs))"
  by (simp_all add: checkExistingSegments_def checkExisting_loop_lists)



lemma existing_member:
  assumes "k < length segs"
  shows "((k, segs ! k) \<in> set (existingSegments (checkExistingSegments dk dl segs)))
      = hasContent dk (segmentPath dl k)"
    and "((k, segs ! k) \<in> set (missingSegments (checkExistingSegments dk dl segs)))
      = (\<not> hasContent dk (segmentPath dl k))"
  using assms by (simp_all add: checkExistingSegments_lists in_set_enumerate_eq)

lemma existing_count:
  "length (existingSegments (checkExistingSegments dk dl segs)) =
     card {k. k < length segs \<and> hasContent dk (segmentPath dl k)}"
proof -
  let ?P = "\<lambda>k. hasContent dk (segmentPath dl k)"
  have "length (filter (\<lambda>(k, u). ?P k) xs) = length (filter ?P (map fst xs))"
    for xs :: "(nat \<times> string) list"
    by (induction xs) auto
  then have a: "length (filter (\<lambda>(k, u). ?P k) (enumerate 0 segs))
      = length (filter ?P [0..<length segs])"
    by (metis add_0 map_fst_enumerate)
  have b: "card (set (filter ?P [0..<length segs])) = length (filter ?P [0..<length segs])"
    by (rule distinct_card) simp
  have c: "set (filter ?P [0..<length segs]) = {k. k < length segs \<and> ?P k}"
    by auto
  show ?thesis
    unfolding checkExistingSegments_lists a b [symmetric] c ..
qed

lemma missing_are_missing:
  "(k, u) \<in> set (missingSegments (checkExistingSegments dk dl segs)) \<Longrightarrow>
   \<not> hasContent dk (segmentPath dl k)"
  by (simp add: checkExistingSegments_lists)

lemma startDownload_unfold:
  assumes "store s i = Some d" and "segments d = Some segs"
  shows "startDownload env now None i s =
     (if missingSegments (checkExistingSegments (disk s) d segs) = []
      then (None, checkDownloadCompletion env i (start_ready now i d segs s))
      else (None, (start_ready now i d segs s)\<lparr>launched := launched (start_ready now i d segs s) @
              [(i, missingSegments (checkExistingSegments (disk s) d segs), length segs)]\<rparr>))"
  using assms by (simp add: startDownload_def start_ready_def Let_def)

lemma start_ready_fields:
  "disk (start_ready now i d segs s) = disk s"
  "launched (start_ready now i d segs s) = launched s"
  "events (start_ready now i d segs s) = events s @ [DownloadStatus i Downloading None None None]"
  by (simp_all add: start_ready_def Let_def)

lemma start_ready_store:
  assumes "store s i = Some d"
  shows "\<exists>d'. store (start_ready now i d segs s) i = Some d' \<and>
      filename d' = filename d \<and> outputPath d' = outputPath d \<and> segments d' = segments d \<and>
      status d' = Downloading \<and>
      downloadedSegments d' =
        (if existingSegments (checkExistingSegments (disk s) d segs) = [] then downloadedSegments d
         else Some (int (length (existingSegments (checkExistingSegments (disk s) d segs)))))"
  using assms by (simp add: start_ready_def Let_def store_updateDownload)

lemma enum3: "enumerate 0 [a, b, c] = [(0, a), (1, b), (2, c)]"
  by (simp add: enumerate_eq_zip upt_rec numeral_2_eq_2 numeral_3_eq_3)

lemma engine3_check:
  "existingSegments (checkExistingSegments (disk engine3) job3
      [''http://host/s0.ts'', ''http://host/s1.ts'', ''http://host/s2.ts''])
     = [(0, ''http://host/s0.ts''), (1, ''http://host/s1.ts'')]"
  "missingSegments (checkExistingSegments (disk engine3) job3
      [''http://host/s0.ts'', ''http://host/s1.ts'', ''http://host/s2.ts''])
     = [(2, ''http://host/s2.ts'')]"
  by (simp_all add: checkExistingSegments_lists enum3 engine3_def job3_paths hasContent_def)





text \<open>
  C3, as amended. On start, an index below the number of segments is classified as existing
  exactly when the file at its deterministic path is on disk with a size above zero, and as
  missing otherwise; the number of existing indices is the count of such files; when at least
  one index is existing the stored number of downloaded segments becomes that count, and
  when none is existing the stored number is left as it was; and one batch of fetches is
  launched, holding exactly the missing indices (none when nothing is missing), so that no
  segment whose file is on disk and not empty is fetched.
\<close>

theorem start_reconciles_with_disk:
  assumes "store s downloadId = Some d" and "segments d = Some segs"
  shows "(\<forall>k<length segs.
            ((k, segs ! k) \<in> set (existingSegments (checkExistingSegments (disk s) d segs)))
              = hasContent (disk s) (segmentPath d k) \<and>
            ((k, segs ! k) \<in> set (missingSegments (checkExistingSegments (disk s) d segs)))
              = (\<not> hasContent (disk s) (segmentPath d k))) \<and>
         length (existingSegments (checkExistingSegments (disk s) d segs))
           = card {k. k < length segs \<and> hasContent (disk s) (segmentPath d k)} \<and>
         (\<exists>d'. store (snd (startDownload env now None downloadId s)) downloadId = Some d' \<and>
               downloadedSegments d' =
                 (if existingSegments (checkExistingSegments (disk s) d segs) = []
                  then downloadedSegments d
                  else Some (int (length (existingSegments (checkExistingSegments (disk s) d segs)))))) \<and>
         launched (snd (startDownload env now None downloadId s)) =
           launched s @
             (if missingSegments (checkExistingSegments (disk s) d segs) = [] then []
              else [(downloadId, missingSegments (checkExistingSegments (disk s) d segs), length segs)]) \<and>
         (\<forall>(k, u) \<in> set (missingSegments (checkExistingSegments (disk s) d segs)).
            \<not> hasContent (disk s) (segmentPath d k))"
proof -
  let ?chk = "checkExistingSegments (disk s) d segs"
  let ?r = "start_ready now downloadId d segs s"
  from start_ready_store [OF assms(1), of now segs] obtain d1 where
    d1: "store ?r downloadId = Some d1"
      "downloadedSegments d1 =
        (if existingSegments ?chk = [] then downloadedSegments d
         else Some (int (length (existingSegments ?chk))))"
    by blast
  have st: "\<exists>d'. store (snd (startDownload env now None downloadId s)) downloadId = Some d' \<and>
      downloadedSegments d' =
        (if existingSegments ?chk = [] then downloadedSegments d
         else Some (int (length (existingSegments ?chk))))"
  proof (cases "missingSegments ?chk = []")
    case True
    from store_checkDownloadCompletion [OF d1(1), of env] obtain d' where
      "store (checkDownloadCompletion env downloadId ?r) downloadId = Some d'"
      "downloadedSegments d' = downloadedSegments d1"
      by blast
    then show ?thesis
      using True d1(2) by (simp add: startDownload_unfold [OF assms])
  next
    case False
    then show ?thesis
      using d1 by (simp add: startDownload_unfold [OF assms])
  qed
  have la: "launched (snd (startDownload env now None downloadId s)) =
      launched s @ (if missingSegments ?chk = [] then []
                    else [(downloadId, missingSegments ?chk, length segs)])"
    by (simp add: startDownload_unfold [OF assms] start_ready_fields)
  show ?thesis
    using existing_member [of _ segs "disk s" d] existing_count [of "disk s" d segs] st la
      missing_are_missing [of _ _ "disk s" d segs]
    by (intro conjI) auto
qed


theorem start_reconciles_with_disk_witness:
  "(\<exists>d'. store (snd (startDownload env_ok 0 None ''job'' engine3)) ''job'' = Some d' \<and>
         downloadedSegments d' = Some 2) \<and>
   launched (snd (startDownload env_ok 0 None ''job'' engine3))
     = [(''job'', [(2, ''http://host/s2.ts'')], 3)]"
proof -
  have h: "store engine3 ''job'' = Some job3"
    "segments job3 = Some [''http://host/s0.ts'', ''http://host/s1.ts'', ''http://host/s2.ts'']"
    by (simp_all add: engine3_def job3_def)
  have l: "launched engine3 = []"
    by (simp add: engine3_def)
  show ?thesis
    using start_reconciles_with_disk [OF h, of env_ok 0]
    by (simp add: engine3_check l)
qed


text \<open>
  The job of three segments whose record counts two downloaded segments, started on a disk
  that holds none of its files: the count of existing indices is 0, the stored number stays 2.
\<close>

theorem start_keeps_stale_count_counterexample:
  "length (existingSegments (checkExistingSegments (disk engine_lost) job3
      [''http://host/s0.ts'', ''http://host/s1.ts'', ''http://host/s2.ts''])) = 0 \<and>
   map_option downloadedSegments
     (store (snd (startDownload env_ok 0 None ''job'' engine_lost)) ''job'') = Some (Some 2)"
proof -
  have h: "store engine_lost ''job'' = Some job3"
    "segments job3 = Some [''http://host/s0.ts'', ''http://host/s1.ts'', ''http://host/s2.ts'']"
    by (simp_all add: engine_lost_def job3_def)
  have c: "existingSegments (checkExistingSegments (disk engine_lost) job3
      [''http://host/s0.ts'', ''http://host/s1.ts'', ''http://host/s2.ts'']) = []"
    "missingSegments (checkExistingSegments (disk engine_lost) job3
      [''http://host/s0.ts'', ''http://host/s1.ts'', ''http://host/s2.ts''])
      = [(0, ''http://host/s0.ts''), (1, ''http://host/s1.ts''), (2, ''http://host/s2.ts'')]"
    by (simp_all add: checkExistingSegments_lists enum3 engine_lost_def hasContent_def)
  from start_ready_store [OF h(1), of 0
      "[''http://host/s0.ts'', ''http://host/s1.ts'', ''http://host/s2.ts'']"]
  obtain d' where d': "store (start_ready 0 ''job'' job3
      [''http://host/s0.ts'', ''http://host/s1.ts'', ''http://host/s2.ts''] engine_lost) ''job'' = Some d'"
    "downloadedSegments d' = downloadedSegments job3"
    unfolding c by auto
  have "downloadedSegments job3 = Some 2"
    by (simp add: job3_def)
  then have "map_option downloadedSegments
     (store (snd (startDownload env_ok 0 None ''job'' engine_lost)) ''job'') = Some (Some 2)"
    unfolding startDownload_unfold [OF h] c using d' by simp
  then show ?thesis
    by (simp add: c(1))
qed








subsection \<open>Segment fetcher\<close>

lemma tryAttempt_fails:
  "isl (tryAttempt a segmentIndex) = (attempt_fails_spec a \<or> writeFileError a \<noteq> None)"
  by (auto simp: tryAttempt_def axios_get_def attempt_fails_spec_def
      split: http_reply.splits option.splits)

lemma loop_done:
  "downloadSegment_from io u idx d i 4 (Some e) tr s =
     \<lparr>fetched = Inl (''Failed to download segment '' @ string_of_nat idx
                      @ '' after 3 attempts: '' @ error_text e),
      io_trace = tr, engine_after = s\<rparr>"
  by (subst downloadSegment_from.simps) (simp add: maxRetries_def string_of_small_nat)

lemma loop_third:
  "downloadSegment_from io u idx d i 3 e0 tr s =
     (case tryAttempt (io u 3) idx of
        Inr n \<Rightarrow> \<lparr>fetched = Inr n, io_trace = tr @ [Get 3],
                   engine_after = writeSegment d i idx n s\<rparr>
      | Inl e \<Rightarrow> downloadSegment_from io u idx d i 4 (Some e) (tr @ [Get 3]) s)"
  by (subst downloadSegment_from.simps) (simp add: maxRetries_def split: sum.splits)

lemma loop_second:
  "downloadSegment_from io u idx d i 2 e0 tr s =
     (case tryAttempt (io u 2) idx of
        Inr n \<Rightarrow> \<lparr>fetched = Inr n, io_trace = tr @ [Get 2],
                   engine_after = writeSegment d i idx n s\<rparr>
      | Inl e \<Rightarrow> downloadSegment_from io u idx d i 3 (Some e)
                   (tr @ [Get 2, Sleep (min (1000 * 2) 5000)]) s)"
  by (subst downloadSegment_from.simps) (simp add: maxRetries_def split: sum.splits)

lemma loop_first:
  "downloadSegment io u idx d i s =
     (case tryAttempt (io u 1) idx of
        Inr n \<Rightarrow> \<lparr>fetched = Inr n, io_trace = [Get 1],
                   engine_after = writeSegment d i idx n s\<rparr>
      | Inl e \<Rightarrow> downloadSegment_from io u idx d i 2 (Some e)
                   [Get 1, Sleep (min (1000 * 1) 5000)] s)"
  unfolding downloadSegment_def
  by (subst downloadSegment_from.simps) (simp add: maxRetries_def numeral_2_eq_2 split: sum.splits)

lemma downloadSegment_runs:
  "(\<forall>n. tryAttempt (io u 1) idx = Inr n \<longrightarrow>
       fetched (downloadSegment io u idx d i s) = Inr n \<and>
       io_trace (downloadSegment io u idx d i s) = [Get 1] \<and>
       engine_after (downloadSegment io u idx d i s) = writeSegment d i idx n s) \<and>
   (\<forall>n. isl (tryAttempt (io u 1) idx) \<and> tryAttempt (io u 2) idx = Inr n \<longrightarrow>
       fetched (downloadSegment io u idx d i s) = Inr n \<and>
       io_trace (downloadSegment io u idx d i s) = [Get 1, Sleep (min (1000 * 1) 5000), Get 2]) \<and>
   (\<forall>n. isl (tryAttempt (io u 1) idx) \<and> isl (tryAttempt (io u 2) idx) \<and>
        tryAttempt (io u 3) idx = Inr n \<longrightarrow>
       fetched (downloadSegment io u idx d i s) = Inr n \<and>
       io_trace (downloadSegment io u idx d i s) =
         [Get 1, Sleep (min (1000 * 1) 5000), Get 2, Sleep (min (1000 * 2) 5000), Get 3]) \<and>
   (\<forall>e. isl (tryAttempt (io u 1) idx) \<and> isl (tryAttempt (io u 2) idx) \<and>
        tryAttempt (io u 3) idx = Inl e \<longrightarrow>
       fetched (downloadSegment io u idx d i s) =
         Inl (''Failed to download segment '' @ string_of_nat idx
              @ '' after 3 attempts: '' @ error_text e) \<and>
       io_trace (downloadSegment io u idx d i s) =
         [Get 1, Sleep (min (1000 * 1) 5000), Get 2, Sleep (min (1000 * 2) 5000), Get 3] \<and>
       engine_after (downloadSegment io u idx d i s) = s)"
  by (auto simp: loop_first loop_second loop_third loop_done isl_def)

lemma downloadSegment_at_most_three:
  "length (filter isGet (io_trace (downloadSegment io u idx d i s))) \<le> 3"
  by (simp add: loop_first loop_second loop_third loop_done split: sum.splits)

lemma segmentTask_exhausted:
  assumes "activeDownloads s i = Some True"
    and "isl (tryAttempt (io u 1) idx)" and "isl (tryAttempt (io u 2) idx)"
    and "tryAttempt (io u 3) idx = Inl e"
  shows "segmentTask io now i d (idx, u) totalSegs s =
     (Inl (''Failed to download segment '' @ string_of_nat idx @ '' after 3 attempts: '' @ error_text e),
      s\<lparr>failedSegments := (failedSegments s)(i \<mapsto>
           insert idx (case failedSegments s i of None \<Rightarrow> {} | Some F \<Rightarrow> F))\<rparr>)"
proof -
  from downloadSegment_runs [of io u idx d i s] assms(2-4)
  have "fetched (downloadSegment io u idx d i s) =
         Inl (''Failed to download segment '' @ string_of_nat idx
              @ '' after 3 attempts: '' @ error_text e)"
    and "engine_after (downloadSegment io u idx d i s) = s"
    by blast+
  then show ?thesis
    using assms(1) by (simp add: segmentTask_def Let_def)
qed


lemma flaky_attempts:
  "isl (tryAttempt (io_flaky u 1) idx)" "isl (tryAttempt (io_flaky u 2) idx)"
  "tryAttempt (io_flaky u 3) idx = Inr 5"
  by (simp_all add: io_flaky_def tryAttempt_def axios_get_def)

lemma string_of_404: "string_of_nat 404 = ''404''"
  by code_simp

lemma not_found_attempts:
  "tryAttempt (io_not_found u k) idx =
     Inl (JsError ''AxiosError'' ''Request failed with status code 404'')"
  by (simp add: io_not_found_def tryAttempt_def axios_get_def string_of_404)


text \<open>
  C2, as amended. A segment fetch makes at most three requests. An attempt fails exactly when
  the transport fails, the status is not 2xx, the body has zero bytes, or writing the
  segment file fails. The fetch stops at the first attempt that succeeds; after a failed
  attempt \<open>k\<close> below three it pauses \<open>min (1000 * k) 5000\<close> milliseconds; after the third
  failed attempt it makes no further request, changes nothing, and is rejected with a message
  that ends with the text of the last error (its name and its message, as a template string
  shows an error object), and the task that ran it puts the index into the job's set of
  failed segments.
\<close>

theorem segment_fetch_attempts_and_backoff:
  "isl (tryAttempt a idx) = (attempt_fails_spec a \<or> writeFileError a \<noteq> None) \<and>
   length (filter isGet (io_trace (downloadSegment io u idx d i s))) \<le> 3 \<and>
   (\<forall>n. tryAttempt (io u 1) idx = Inr n \<longrightarrow>
       fetched (downloadSegment io u idx d i s) = Inr n \<and>
       io_trace (downloadSegment io u idx d i s) = [Get 1]) \<and>
   (\<forall>n. isl (tryAttempt (io u 1) idx) \<and> tryAttempt (io u 2) idx = Inr n \<longrightarrow>
       fetched (downloadSegment io u idx d i s) = Inr n \<and>
       io_trace (downloadSegment io u idx d i s) = [Get 1, Sleep (min (1000 * 1) 5000), Get 2]) \<and>
   (\<forall>n. isl (tryAttempt (io u 1) idx) \<and> isl (tryAttempt (io u 2) idx) \<and>
        tryAttempt (io u 3) idx = Inr n \<longrightarrow>
       fetched (downloadSegment io u idx d i s) = Inr n \<and>
       io_trace (downloadSegment io u idx d i s) =
         [Get 1, Sleep (min (1000 * 1) 5000), Get 2, Sleep (min (1000 * 2) 5000), Get 3]) \<and>
   (\<forall>e. isl (tryAttempt (io u 1) idx) \<and> isl (tryAttempt (io u 2) idx) \<and>
        tryAttempt (io u 3) idx = Inl e \<longrightarrow>
       fetched (downloadSegment io u idx d i s) =
         Inl (''Failed to download segment '' @ string_of_nat idx
              @ '' after 3 attempts: '' @ error_text e) \<and>
       io_trace (downloadSegment io u idx d i s) =
         [Get 1, Sleep (min (1000 * 1) 5000), Get 2, Sleep (min (1000 * 2) 5000), Get 3] \<and>
       engine_after (downloadSegment io u idx d i s) = s \<and>
       (activeDownloads s i = Some True \<longrightarrow>
          failedSegments (snd (segmentTask io now i d (idx, u) totalSegs s)) i =
            Some (insert idx (case failedSegments s i of None \<Rightarrow> {} | Some F \<Rightarrow> F))))"
proof -
  have "failedSegments (snd (segmentTask io now i d (idx, u) totalSegs s)) i =
            Some (insert idx (case failedSegments s i of None \<Rightarrow> {} | Some F \<Rightarrow> F))"
    if "isl (tryAttempt (io u 1) idx)" "isl (tryAttempt (io u 2) idx)"
      "tryAttempt (io u 3) idx = Inl e" "activeDownloads s i = Some True" for e
    using segmentTask_exhausted [of s i io u idx e now d totalSegs] that by simp
  then show ?thesis
    using tryAttempt_fails [of a idx] downloadSegment_at_most_three [of io u idx d i s]
      downloadSegment_runs [of io u idx d i s]
    by (intro conjI) blast+
qed


theorem segment_fetch_attempts_and_backoff_witness:
  "fetched (downloadSegment io_flaky ''http://host/s2.ts'' 2 job3 ''job'' engine3) = Inr 5 \<and>
   io_trace (downloadSegment io_flaky ''http://host/s2.ts'' 2 job3 ''job'' engine3) =
     [Get 1, Sleep 1000, Get 2, Sleep 2000, Get 3] \<and>
   fetched (downloadSegment io_not_found ''http://host/s2.ts'' 2 job3 ''job'' engine3) =
     Inl ''Failed to download segment 2 after 3 attempts: AxiosError: Request failed with status code 404'' \<and>
   io_trace (downloadSegment io_not_found ''http://host/s2.ts'' 2 job3 ''job'' engine3) =
     [Get 1, Sleep 1000, Get 2, Sleep 2000, Get 3] \<and>
   failedSegments
     (snd (segmentTask io_not_found 0 ''job'' job3 (2, ''http://host/s2.ts'') 3
        (engine3\<lparr>failedSegments := [''job'' \<mapsto> {}]\<rparr>))) ''job'' = Some {2}"
  using segment_fetch_attempts_and_backoff [of
      "io_flaky ''http://host/s2.ts'' 1" 2 io_flaky "''http://host/s2.ts''" job3 "''job''" engine3 0 3]
    segment_fetch_attempts_and_backoff [of
      "io_not_found ''http://host/s2.ts'' 1" 2 io_not_found "''http://host/s2.ts''" job3 "''job''"
      engine3 0 3]
    segment_fetch_attempts_and_backoff [of
      "io_not_found ''http://host/s2.ts'' 1" 2 io_not_found "''http://host/s2.ts''" job3 "''job''"
      "engine3\<lparr>failedSegments := [''job'' \<mapsto> {}]\<rparr>" 0 3]
    flaky_attempts [of "''http://host/s2.ts''" 2]
  by (simp add: not_found_attempts string_of_small_nat engine3_def)


text \<open>
  An answer with status 200 and five bytes whose file cannot be written: the attempt fails,
  though the transport worked, the status is 2xx and the body is not empty; after three such
  attempts the segment is reported as failed.
\<close>

theorem write_failure_fails_attempt_counterexample:
  "isl (tryAttempt (io_disk_full ''http://host/s2.ts'' 1) 2) \<and>
   \<not> attempt_fails_spec (io_disk_full ''http://host/s2.ts'' 1) \<and>
   fetched (downloadSegment io_disk_full ''http://host/s2.ts'' 2 job3 ''job'' engine3) =
     Inl ''Failed to download segment 2 after 3 attempts: Error: ENOSPC: no space left on device, write''"
proof -
  have t: "tryAttempt (io_disk_full ''http://host/s2.ts'' k) 2 =
      Inl (JsError ''Error'' ''ENOSPC: no space left on device, write'')" for k
    by (simp add: io_disk_full_def tryAttempt_def axios_get_def)
  have "\<not> attempt_fails_spec (io_disk_full ''http://host/s2.ts'' 1)"
    by (simp add: io_disk_full_def attempt_fails_spec_def)
  moreover have "fetched (downloadSegment io_disk_full ''http://host/s2.ts'' 2 job3 ''job'' engine3) =
     Inl ''Failed to download segment 2 after 3 attempts: Error: ENOSPC: no space left on device, write''"
    using downloadSegment_runs [of io_disk_full "''http://host/s2.ts''" 2 job3 "''job''" engine3]
    by (simp add: t string_of_small_nat)
  ultimately show ?thesis
    by (simp add: t)
qed

end
